theory Spec2Isabelle
  imports
    Main
    "HOL-Library.Multiset"
    "HOL-Library.Char_ord"
    "HOL-Library.List_Lexorder"
    "HOL-Library.AList"
begin

section \<open>Announcement endpoints: a shallow embedding of \<open>routers/announcements.py\<close>\<close>

text \<open>
  The module is a set of request handlers over two document collections
  (\<open>announcements_collection\<close> and \<open>teachers_collection\<close>).  The texts that the
  handlers store, compare or look up are modelled as \<open>string\<close>, a \<open>char\<close> standing for
  a code point below 256.  The two dates of a request body are what \<open>strptime\<close> reads,
  and the digit class \<open>\d\<close> of its regular expression is that of Unicode: they are
  lists of code points.
\<close>

subsection \<open>Calendar dates (\<open>datetime.date\<close>)\<close>

record date =
  year :: nat
  month :: nat
  day :: nat

definition is_leap :: "nat \<Rightarrow> bool" where
  "is_leap y = (y mod 4 = 0 \<and> (y mod 100 \<noteq> 0 \<or> y mod 400 = 0))"

definition days_in_month :: "nat \<Rightarrow> nat \<Rightarrow> nat" where
  "days_in_month y m =
     (if m = 2 then (if is_leap y then 29 else 28)
      else if m = 4 \<or> m = 6 \<or> m = 9 \<or> m = 11 then 30 else 31)"

text \<open>The constructor \<open>date(year, month, day)\<close> raises \<open>ValueError\<close> outside these bounds
  (\<open>MINYEAR = 1\<close>, \<open>MAXYEAR = 9999\<close>).\<close>

definition valid_date :: "date \<Rightarrow> bool" where
  "valid_date d =
     (1 \<le> year d \<and> year d \<le> 9999 \<and> 1 \<le> month d \<and> month d \<le> 12 \<and>
      1 \<le> day d \<and> day d \<le> days_in_month (year d) (month d))"

text \<open>Dates compare as the triples (year, month, day).\<close>

definition date_less :: "date \<Rightarrow> date \<Rightarrow> bool" where
  "date_less a b =
     (year a < year b \<or> (year a = year b \<and>
        (month a < month b \<or> (month a = month b \<and> day a < day b))))"

definition date_le :: "date \<Rightarrow> date \<Rightarrow> bool" where
  "date_le a b = (date_less a b \<or> a = b)"

subsection \<open>\<open>date.isoformat\<close>: \<open>"%04d-%02d-%02d"\<close>\<close>

definition digit_char :: "nat \<Rightarrow> char" where
  "digit_char n = char_of (48 + n mod 10)"

definition pad2 :: "nat \<Rightarrow> string" where
  "pad2 n = [digit_char (n div 10), digit_char n]"

definition pad4 :: "nat \<Rightarrow> string" where
  "pad4 n = [digit_char (n div 1000), digit_char (n div 100), digit_char (n div 10), digit_char n]"

definition isoformat :: "date \<Rightarrow> string" where
  "isoformat d = pad4 (year d) @ CHR ''-'' # pad2 (month d) @ CHR ''-'' # pad2 (day d)"

subsection \<open>Unicode texts and decimal digits\<close>

text \<open>A text is the list of its code points; \<open>unicode_of\<close> reads a \<open>string\<close> as one.\<close>

type_synonym unicode = "nat list"

definition unicode_of :: "string \<Rightarrow> unicode" where
  "unicode_of s = map of_char s"

text \<open>
  The decimal digits of Unicode (general category \<open>Nd\<close>) come in runs of ten, from the
  zero to the nine of a script.  \<open>decimal_zeros\<close> are the code points of the zeros in the
  Unicode database 14.0 of Python 3.11: ASCII first, then Arabic-Indic \<open>U+0660\<close>,
  extended Arabic-Indic \<open>U+06F0\<close>, and so on to \<open>U+1FBF0\<close>.  (A later database adds
  runs, and \<open>\d\<close> then takes their digits as well; the texts of ASCII digits are read
  the same under every database.)  \<open>decimal_value\<close> is the digit a character stands for, which
  is what \<open>int\<close> reads; \<open>None\<close> for a character that is no decimal digit.
\<close>

definition decimal_zeros :: "nat list" where
  "decimal_zeros =
     [48, 1632, 1776, 1984, 2406, 2534, 2662, 2790, 2918, 3046, 3174, 3302, 3430, 3558, 3664,
      3792, 3872, 4160, 4240, 6112, 6160, 6470, 6608, 6784, 6800, 6992, 7088, 7232, 7248,
      42528, 43216, 43264, 43472, 43504, 43600, 44016, 65296, 66720, 68912, 69734, 69872,
      69942, 70096, 70384, 70736, 70864, 71248, 71360, 71472, 71904, 72016, 72784, 73040,
      73120, 92768, 92864, 93008, 120782, 120792, 120802, 120812, 120822, 123200, 123632,
      125264, 130032]"

definition decimal_value :: "nat \<Rightarrow> nat option" where
  "decimal_value c =
     (case List.find (\<lambda>z. z \<le> c \<and> c < z + 10) decimal_zeros of
        None \<Rightarrow> None
      | Some z \<Rightarrow> Some (c - z))"

subsection \<open>\<open>datetime.strptime(value, "%Y-%m-%d")\<close>\<close>

text \<open>
  \<open>strptime\<close> compiles the format to the regular expression
  \<^verbatim>\<open>(?P<Y>\d\d\d\d)-(?P<m>1[0-2]|0[1-9]|[1-9])-(?P<d>3[0-1]|[1-2]\d|0[1-9]|[1-9]| [1-9])\<close>,
  matches it at the start of the input, raises \<open>ValueError\<close> when there is no match or
  when input remains after the match, and then builds the date, which raises
  \<open>ValueError\<close> for a day that the month does not have.  Each group below returns its
  alternatives in the order in which the backtracking matcher tries them, as pairs of
  the number read and the rest of the input.  \<open>is_digit\<close> is the class \<open>\d\<close>, any
  decimal digit; \<open>in_range lo hi\<close> is a class such as \<open>[0-2]\<close>, of ASCII digits;
  \<open>digit_val\<close> is the digit read (0 for the space of the last alternative of a day).
\<close>

definition is_digit :: "nat \<Rightarrow> bool" where
  "is_digit c = (decimal_value c \<noteq> None)"

definition digit_val :: "nat \<Rightarrow> nat" where
  "digit_val c = (case decimal_value c of Some k \<Rightarrow> k | None \<Rightarrow> 0)"

definition in_range :: "nat \<Rightarrow> nat \<Rightarrow> nat \<Rightarrow> bool" where
  "in_range lo hi c = (48 + lo \<le> c \<and> c \<le> 48 + hi)"

fun match_Y :: "unicode \<Rightarrow> (nat \<times> unicode) list" where
  "match_Y (a # b # c # d # rest) =
     (if is_digit a \<and> is_digit b \<and> is_digit c \<and> is_digit d
      then [(1000 * digit_val a + 100 * digit_val b + 10 * digit_val c + digit_val d, rest)]
      else [])"
| "match_Y _ = []"

fun two_chars :: "(nat \<Rightarrow> bool) \<Rightarrow> (nat \<Rightarrow> bool) \<Rightarrow> unicode \<Rightarrow> (nat \<times> unicode) list" where
  "two_chars p q (a # b # rest) =
     (if p a \<and> q b
      then [((if is_digit a then 10 * digit_val a else 0) + digit_val b, rest)] else [])"
| "two_chars p q _ = []"

fun one_char :: "(nat \<Rightarrow> bool) \<Rightarrow> unicode \<Rightarrow> (nat \<times> unicode) list" where
  "one_char p (a # rest) = (if p a then [(digit_val a, rest)] else [])"
| "one_char p [] = []"

definition match_m :: "unicode \<Rightarrow> (nat \<times> unicode) list" where
  "match_m s =
     two_chars (in_range 1 1) (in_range 0 2) s @
     two_chars (in_range 0 0) (in_range 1 9) s @
     one_char (in_range 1 9) s"

definition match_d :: "unicode \<Rightarrow> (nat \<times> unicode) list" where
  "match_d s =
     two_chars (in_range 3 3) (in_range 0 1) s @
     two_chars (in_range 1 2) is_digit s @
     two_chars (in_range 0 0) (in_range 1 9) s @
     one_char (in_range 1 9) s @
     two_chars (\<lambda>c. c = 32) (in_range 1 9) s"

fun match_dash :: "unicode \<Rightarrow> unicode list" where
  "match_dash (c # rest) = (if c = 45 then [rest] else [])"
| "match_dash [] = []"

definition match_format :: "unicode \<Rightarrow> (date \<times> unicode) list" where
  "match_format s =
     concat (map (\<lambda>(y, r1).
       concat (map (\<lambda>r2.
         concat (map (\<lambda>(m, r3).
           concat (map (\<lambda>r4.
             map (\<lambda>(d, r5). (\<lparr>year = y, month = m, day = d\<rparr>, r5)) (match_d r4))
           (match_dash r3)))
         (match_m r2)))
       (match_dash r1)))
     (match_Y s))"

text \<open>\<open>None\<close> is \<open>ValueError\<close>.\<close>

definition strptime :: "unicode \<Rightarrow> date option" where
  "strptime s =
     (case match_format s of
        [] \<Rightarrow> None
      | (d, rest) # _ \<Rightarrow> if rest \<noteq> [] then None else if valid_date d then Some d else None)"

subsection \<open>Exceptions and \<open>parse_date\<close>, \<open>validate_date_range\<close>\<close>

text \<open>An exception is an \<open>HTTPException\<close> with its status code and detail, or any other
  exception, kept with its text.\<close>

datatype exn = HTTPException nat string | Error string

definition parse_date :: "unicode option \<Rightarrow> string \<Rightarrow> exn + date option" where
  "parse_date v field_name =
     (case v of
        None \<Rightarrow> Inr None
      | Some s \<Rightarrow>
          if s = [] then Inr None
          else (case strptime s of
                  Some d \<Rightarrow> Inr (Some d)
                | None \<Rightarrow> Inl (HTTPException 400 (field_name @ '' must be in YYYY-MM-DD format''))))"

definition validate_date_range :: "date option \<Rightarrow> date \<Rightarrow> exn + unit" where
  "validate_date_range start_date end_date =
     (case start_date of
        None \<Rightarrow> Inr ()
      | Some s \<Rightarrow>
          if date_less end_date s
          then Inl (HTTPException 400 ''start_date must be on or before end_date'')
          else Inr ())"

subsection \<open>Python values and documents\<close>

text \<open>
  An \<open>ObjectId\<close> is kept as the text of its bytes in lower-case hexadecimal digits, a \<open>datetime\<close>
  as a count of microseconds.  A document (a Python \<open>dict\<close>, a BSON document) is an
  association list in insertion order.
\<close>

type_synonym oid = string
type_synonym timestamp = nat

datatype pyval = PNone | PStr string | PObjectId oid | PDatetime timestamp

type_synonym document = "(string \<times> pyval) list"

text \<open>\<open>document.get(key)\<close>: \<open>None\<close> for a missing key.\<close>

definition doc_get :: "document \<Rightarrow> string \<Rightarrow> pyval" where
  "doc_get d k = (case map_of d k of None \<Rightarrow> PNone | Some v \<Rightarrow> v)"

fun decimal :: "nat \<Rightarrow> string" where
  "decimal n = (if n < 10 then [digit_char n] else decimal (n div 10) @ [digit_char n])"

declare decimal.simps [simp del]

text \<open>\<open>str(v)\<close>.  The text of a \<open>datetime\<close> is not modelled (it is rendered as its
  count); no handler applies \<open>str\<close> to one unless a document has a datetime as its
  \<open>_id\<close>.\<close>

fun py_str :: "pyval \<Rightarrow> string" where
  "py_str PNone = ''None''"
| "py_str (PStr s) = s"
| "py_str (PObjectId i) = i"
| "py_str (PDatetime t) = decimal t"

text \<open>\<open>ObjectId(text)\<close> takes a text of 24 characters and reads it with
  \<open>bytes.fromhex\<close>, which skips ASCII white space before a pair of hexadecimal digits and
  refuses everything else; \<open>None\<close> is \<open>InvalidId\<close>.  (So a text of 24 characters with
  white space between the pairs is taken, as a shorter id.)\<close>

definition is_hex :: "char \<Rightarrow> bool" where
  "is_hex c = ((48 \<le> (of_char c :: nat) \<and> (of_char c :: nat) \<le> 57)
                 \<or> (97 \<le> (of_char c :: nat) \<and> (of_char c :: nat) \<le> 102)
                 \<or> (65 \<le> (of_char c :: nat) \<and> (of_char c :: nat) \<le> 70))"

definition lower_hex :: "char \<Rightarrow> char" where
  "lower_hex c = (if 65 \<le> (of_char c :: nat) \<and> (of_char c :: nat) \<le> 70
                  then char_of ((of_char c :: nat) + 32) else c)"

definition Py_ISSPACE :: "char \<Rightarrow> bool" where
  "Py_ISSPACE c = ((9 \<le> (of_char c :: nat) \<and> (of_char c :: nat) \<le> 13) \<or> (of_char c :: nat) = 32)"

fun fromhex :: "string \<Rightarrow> string option" where
  "fromhex [] = Some []"
| "fromhex [c] = (if Py_ISSPACE c then Some [] else None)"
| "fromhex (c # c' # cs) =
     (if Py_ISSPACE c then fromhex (c' # cs)
      else if is_hex c \<and> is_hex c'
           then (case fromhex cs of None \<Rightarrow> None
                                   | Some bs \<Rightarrow> Some (lower_hex c # lower_hex c' # bs))
           else None)"

definition ObjectId :: "string \<Rightarrow> oid option" where
  "ObjectId s = (if length s = 24 then fromhex s else None)"

text \<open>\<open>str.isspace\<close> on code points below 256, and \<open>str.strip()\<close>.\<close>

definition isspace :: "char \<Rightarrow> bool" where
  "isspace c = ((of_char c :: nat) \<in> {9, 10, 11, 12, 13, 28, 29, 30, 31, 32, 133, 160})"

definition strip :: "string \<Rightarrow> string" where
  "strip s = rev (dropWhile isspace (rev (dropWhile isspace s)))"

subsection \<open>The document store\<close>

text \<open>
  The order of BSON values of different types: null, then strings, then object ids,
  then dates.  Strings compare by code point.
\<close>

fun type_rank :: "pyval \<Rightarrow> nat" where
  "type_rank PNone = 0"
| "type_rank (PStr _) = 1"
| "type_rank (PObjectId _) = 2"
| "type_rank (PDatetime _) = 3"

fun bson_le :: "pyval \<Rightarrow> pyval \<Rightarrow> bool" where
  "bson_le (PStr a) (PStr b) = (a \<le> b)"
| "bson_le (PObjectId a) (PObjectId b) = (a \<le> b)"
| "bson_le (PDatetime a) (PDatetime b) = (a \<le> b)"
| "bson_le a b = (type_rank a \<le> type_rank b)"

text \<open>
  The query documents of the module: a condition on one field, \<open>$or\<close> of queries, and
  the conjunction that a document with several keys stands for.  \<open>$gte\<close> and \<open>$lte\<close>
  with a string operand match string fields only; a query for \<open>None\<close> matches a null
  and a missing field.
\<close>

datatype cond = Eq pyval | Gte string | Lte string | Exists bool

datatype query = Field string cond | Or "query list" | And "query list"

fun cond_holds :: "cond \<Rightarrow> pyval option \<Rightarrow> bool" where
  "cond_holds (Eq v) f = (if v = PNone then f = None \<or> f = Some PNone else f = Some v)"
| "cond_holds (Gte s) f = (case f of Some (PStr x) \<Rightarrow> s \<le> x | _ \<Rightarrow> False)"
| "cond_holds (Lte s) f = (case f of Some (PStr x) \<Rightarrow> x \<le> s | _ \<Rightarrow> False)"
| "cond_holds (Exists b) f = ((f \<noteq> None) = b)"

fun matches :: "query \<Rightarrow> document \<Rightarrow> bool" where
  "matches (Field k c) d = cond_holds c (map_of d k)"
| "matches (Or qs) d = list_ex (\<lambda>q. matches q d) qs"
| "matches (And qs) d = list_all (\<lambda>q. matches q d) qs"

text \<open>\<open>sort([(key, direction), ...])\<close>: a missing field sorts as null.  The store does
  not promise an order among documents that compare equal; the model keeps them in
  collection order.\<close>

datatype direction = ASCENDING | DESCENDING

fun sort_le :: "(string \<times> direction) list \<Rightarrow> document \<Rightarrow> document \<Rightarrow> bool" where
  "sort_le [] a b = True"
| "sort_le ((k, dir) # ks) a b =
     (if doc_get a k = doc_get b k then sort_le ks a b
      else (case dir of ASCENDING \<Rightarrow> bson_le (doc_get a k) (doc_get b k)
                      | DESCENDING \<Rightarrow> bson_le (doc_get b k) (doc_get a k)))"

fun insort_by :: "('a \<Rightarrow> 'a \<Rightarrow> bool) \<Rightarrow> 'a \<Rightarrow> 'a list \<Rightarrow> 'a list" where
  "insort_by le x [] = [x]"
| "insort_by le x (y # ys) = (if le x y then x # y # ys else y # insort_by le x ys)"

definition sort_by :: "('a \<Rightarrow> 'a \<Rightarrow> bool) \<Rightarrow> 'a list \<Rightarrow> 'a list" where
  "sort_by le xs = foldr (insort_by le) xs []"

definition find_sorted :: "query \<Rightarrow> (string \<times> direction) list \<Rightarrow> document list \<Rightarrow> document list" where
  "find_sorted q spec coll = sort_by (sort_le spec) (filter (matches q) coll)"

definition find_one :: "query \<Rightarrow> document list \<Rightarrow> document option" where
  "find_one q coll = List.find (matches q) coll"

text \<open>\<open>insert_one\<close> with the \<open>_id\<close> that the driver generated: the unique index on
  \<open>_id\<close> refuses a duplicate.\<close>

definition insert_one :: "oid \<Rightarrow> document \<Rightarrow> document list \<Rightarrow> string + document list" where
  "insert_one new doc coll =
     (if list_ex (matches (Field ''_id'' (Eq (PObjectId new)))) coll
      then Inl ''E11000 duplicate key error''
      else Inr (coll @ [(''_id'', PObjectId new) # doc]))"

text \<open>\<open>update_one(q, {"$set": updates})\<close> changes the first matching document and
  returns \<open>matched_count\<close>; \<open>$set\<close> replaces the value of a field that exists and
  appends one that does not.\<close>

definition set_fields :: "document \<Rightarrow> document \<Rightarrow> document" where
  "set_fields updates d = foldl (\<lambda>acc (k, v). AList.update k v acc) d updates"

fun update_one :: "query \<Rightarrow> document \<Rightarrow> document list \<Rightarrow> nat \<times> document list" where
  "update_one q updates [] = (0, [])"
| "update_one q updates (d # ds) =
     (if matches q d then (1, set_fields updates d # ds)
      else (case update_one q updates ds of (n, ds') \<Rightarrow> (n, d # ds')))"

fun delete_one :: "query \<Rightarrow> document list \<Rightarrow> document list" where
  "delete_one q [] = []"
| "delete_one q (d # ds) = (if matches q d then ds else d # delete_one q ds)"

record store =
  announcements_collection :: "document list"
  teachers_collection :: "document list"

text \<open>
  What a request reads from outside: the clock, the \<open>ObjectId\<close> that the driver
  generates for an insert, and whether a call to the store raises (a lost connection,
  say), given per kind of call with the text of the exception.
\<close>

datatype store_call =
  TeachersFindOne | AnnouncementsFind | AnnouncementsInsertOne |
  AnnouncementsUpdateOne | AnnouncementsFindOne | AnnouncementsDeleteOne

record env =
  today :: date
  utcnow :: "nat \<Rightarrow> timestamp"
  new_oid :: oid
  raises :: "store_call \<Rightarrow> string option"

definition store_call :: "env \<Rightarrow> store_call \<Rightarrow> 'a \<Rightarrow> exn + 'a" where
  "store_call e c result = (case raises e c of Some text \<Rightarrow> Inl (Error text) | None \<Rightarrow> Inr result)"

text \<open>\<open>try: ... except Exception: raise HTTPException(500, detail)\<close>, and the same with
  \<open>except HTTPException: raise\<close> before it.\<close>

definition except_Exception :: "string \<Rightarrow> exn + 'a \<Rightarrow> exn + 'a" where
  "except_Exception detail r =
     (case r of Inl _ \<Rightarrow> Inl (HTTPException 500 detail) | Inr v \<Rightarrow> Inr v)"

definition except_HTTPException_raise :: "string \<Rightarrow> exn + 'a \<Rightarrow> exn + 'a" where
  "except_HTTPException_raise detail r =
     (case r of
        Inl (HTTPException code d) \<Rightarrow> Inl (HTTPException code d)
      | Inl (Error _) \<Rightarrow> Inl (HTTPException 500 detail)
      | Inr v \<Rightarrow> Inr v)"

subsection \<open>The handlers\<close>

text \<open>The request body: \<open>title\<close> and \<open>message\<close> are strings, \<open>start_date\<close> is
  \<open>Optional[str]\<close>; the two dates are kept as code points, for \<open>strptime\<close>.
  \<open>end_date\<close> is declared \<open>str\<close>; the handlers pass it to
  \<open>parse_date\<close>, which takes an \<open>Optional[str]\<close>, and test the result for \<open>None\<close>, so
  the model keeps the absent value as well.  \<open>payload_ok\<close> is what the field
  declarations promise of a body that reaches a handler.\<close>

record AnnouncementPayload =
  title :: string
  message :: string
  start_date :: "unicode option"
  end_date :: "unicode option"

definition payload_ok :: "AnnouncementPayload \<Rightarrow> bool" where
  "payload_ok p =
     (1 \<le> length (title p) \<and> length (title p) \<le> 80 \<and>
      1 \<le> length (message p) \<and> length (message p) \<le> 280 \<and> end_date p \<noteq> None)"

definition require_teacher :: "env \<Rightarrow> store \<Rightarrow> string option \<Rightarrow> exn + document" where
  "require_teacher e st teacher_username =
     (case teacher_username of
        None \<Rightarrow> Inl (HTTPException 401 ''Authentication required'')
      | Some name \<Rightarrow>
          if name = [] then Inl (HTTPException 401 ''Authentication required'')
          else (case store_call e TeachersFindOne
                       (find_one (Field ''_id'' (Eq (PStr name))) (teachers_collection st)) of
                  Inl x \<Rightarrow> Inl x
                | Inr None \<Rightarrow> Inl (HTTPException 401 ''Invalid teacher credentials'')
                | Inr (Some teacher) \<Rightarrow>
                    if teacher = [] then Inl (HTTPException 401 ''Invalid teacher credentials'')
                    else Inr teacher))"

definition serialize_announcement :: "document \<Rightarrow> document" where
  "serialize_announcement d =
     [(''id'', PStr (py_str (doc_get d ''_id''))),
      (''title'', doc_get d ''title''),
      (''message'', doc_get d ''message''),
      (''start_date'', doc_get d ''start_date''),
      (''end_date'', doc_get d ''end_date''),
      (''created_at'', doc_get d ''created_at''),
      (''updated_at'', doc_get d ''updated_at'')]"

definition active_query :: "string \<Rightarrow> query" where
  "active_query t =
     And [Field ''end_date'' (Gte t),
          Or [Field ''start_date'' (Exists False),
              Field ''start_date'' (Eq PNone),
              Field ''start_date'' (Eq (PStr [])),
              Field ''start_date'' (Lte t)]]"

definition get_active_announcements :: "env \<Rightarrow> store \<Rightarrow> exn + document list" where
  "get_active_announcements e st =
     (let t = isoformat (today e) in
      except_Exception ''Failed to load announcements''
        (case store_call e AnnouncementsFind
                (find_sorted (active_query t) [(''start_date'', ASCENDING), (''created_at'', DESCENDING)]
                   (announcements_collection st)) of
           Inl x \<Rightarrow> Inl x
         | Inr announcements \<Rightarrow> Inr (map serialize_announcement announcements)))"

definition list_announcements :: "env \<Rightarrow> store \<Rightarrow> string option \<Rightarrow> exn + document list" where
  "list_announcements e st teacher_username =
     (case require_teacher e st teacher_username of
        Inl x \<Rightarrow> Inl x
      | Inr _ \<Rightarrow>
          except_Exception ''Failed to load announcements''
            (case store_call e AnnouncementsFind
                    (find_sorted (And []) [(''end_date'', DESCENDING), (''start_date'', DESCENDING)]
                       (announcements_collection st)) of
               Inl x \<Rightarrow> Inl x
             | Inr announcements \<Rightarrow> Inr (map serialize_announcement announcements)))"

text \<open>The checks that \<open>create_announcement\<close> and \<open>update_announcement\<close> share, in the
  order of the source: the teacher, both dates, the presence of \<open>end_date\<close>, the range.\<close>

definition checked_dates ::
  "env \<Rightarrow> store \<Rightarrow> AnnouncementPayload \<Rightarrow> string option \<Rightarrow> exn + (date option \<times> date)" where
  "checked_dates e st payload teacher_username =
     (case require_teacher e st teacher_username of
        Inl x \<Rightarrow> Inl x
      | Inr _ \<Rightarrow>
     (case parse_date (start_date payload) ''start_date'' of
        Inl x \<Rightarrow> Inl x
      | Inr start \<Rightarrow>
     (case parse_date (end_date payload) ''end_date'' of
        Inl x \<Rightarrow> Inl x
      | Inr None \<Rightarrow> Inl (HTTPException 400 ''end_date is required'')
      | Inr (Some end) \<Rightarrow>
     (case validate_date_range start end of
        Inl x \<Rightarrow> Inl x
      | Inr _ \<Rightarrow> Inr (start, end)))))"

definition iso_or_None :: "date option \<Rightarrow> pyval" where
  "iso_or_None start = (case start of Some d \<Rightarrow> PStr (isoformat d) | None \<Rightarrow> PNone)"

definition create_announcement ::
  "env \<Rightarrow> store \<Rightarrow> AnnouncementPayload \<Rightarrow> string option \<Rightarrow> (exn + document) \<times> store" where
  "create_announcement e st payload teacher_username =
     (case checked_dates e st payload teacher_username of
        Inl x \<Rightarrow> (Inl x, st)
      | Inr (start, end) \<Rightarrow>
          (let document =
                 [(''title'', PStr (strip (title payload))),
                  (''message'', PStr (strip (message payload))),
                  (''start_date'', iso_or_None start),
                  (''end_date'', PStr (isoformat end)),
                  (''created_at'', PDatetime (utcnow e 0)),
                  (''updated_at'', PDatetime (utcnow e 1))]
           in (case store_call e AnnouncementsInsertOne () of
                 Inl x \<Rightarrow> (except_Exception ''Failed to create announcement'' (Inl x), st)
               | Inr _ \<Rightarrow>
                   (case insert_one (new_oid e) document (announcements_collection st) of
                      Inl text \<Rightarrow>
                        (except_Exception ''Failed to create announcement'' (Inl (Error text)), st)
                    | Inr coll \<Rightarrow>
                        (except_Exception ''Failed to create announcement''
                           (Inr (serialize_announcement
                                   (AList.update ''_id'' (PObjectId (new_oid e)) document))),
                         st\<lparr>announcements_collection := coll\<rparr>)))))"

text \<open>The body of the \<open>try\<close> of \<open>update_announcement\<close>, with the store it leaves.\<close>

definition update_body ::
  "env \<Rightarrow> store \<Rightarrow> oid \<Rightarrow> document \<Rightarrow> (exn + document) \<times> store" where
  "update_body e st announcement_object_id updates =
     (case store_call e AnnouncementsUpdateOne () of
        Inl x \<Rightarrow> (Inl x, st)
      | Inr _ \<Rightarrow>
          (case update_one (Field ''_id'' (Eq (PObjectId announcement_object_id))) updates
                  (announcements_collection st) of
             (matched_count, coll) \<Rightarrow>
               (let st' = st\<lparr>announcements_collection := coll\<rparr> in
                if matched_count = 0 then (Inl (HTTPException 404 ''Announcement not found''), st')
                else (case store_call e AnnouncementsFindOne
                             (find_one (Field ''_id'' (Eq (PObjectId announcement_object_id))) coll) of
                        Inl x \<Rightarrow> (Inl x, st')
                      | Inr None \<Rightarrow> (Inl (HTTPException 404 ''Announcement not found''), st')
                      | Inr (Some updated) \<Rightarrow>
                          if updated = [] then (Inl (HTTPException 404 ''Announcement not found''), st')
                          else (Inr (serialize_announcement updated), st')))))"

definition update_announcement ::
  "env \<Rightarrow> store \<Rightarrow> string \<Rightarrow> AnnouncementPayload \<Rightarrow> string option \<Rightarrow> (exn + document) \<times> store" where
  "update_announcement e st announcement_id payload teacher_username =
     (case checked_dates e st payload teacher_username of
        Inl x \<Rightarrow> (Inl x, st)
      | Inr (start, end) \<Rightarrow>
          (case ObjectId announcement_id of
             None \<Rightarrow> (Inl (HTTPException 400 ''Invalid announcement id''), st)
           | Some announcement_object_id \<Rightarrow>
               (let updates =
                      [(''title'', PStr (strip (title payload))),
                       (''message'', PStr (strip (message payload))),
                       (''start_date'', iso_or_None start),
                       (''end_date'', PStr (isoformat end)),
                       (''updated_at'', PDatetime (utcnow e 0))]
                in (case update_body e st announcement_object_id updates of
                      (r, st') \<Rightarrow> (except_HTTPException_raise ''Failed to update announcement'' r, st')))))"

definition delete_body :: "env \<Rightarrow> store \<Rightarrow> oid \<Rightarrow> (exn + document) \<times> store" where
  "delete_body e st announcement_object_id =
     (case store_call e AnnouncementsFindOne
             (find_one (Field ''_id'' (Eq (PObjectId announcement_object_id)))
                (announcements_collection st)) of
        Inl x \<Rightarrow> (Inl x, st)
      | Inr None \<Rightarrow> (Inl (HTTPException 404 ''Announcement not found''), st)
      | Inr (Some announcement) \<Rightarrow>
          if announcement = [] then (Inl (HTTPException 404 ''Announcement not found''), st)
          else (case store_call e AnnouncementsDeleteOne () of
                  Inl x \<Rightarrow> (Inl x, st)
                | Inr _ \<Rightarrow>
                    (Inr [(''message'', PStr ''Announcement deleted'')],
                     st\<lparr>announcements_collection :=
                          delete_one (Field ''_id'' (Eq (PObjectId announcement_object_id)))
                            (announcements_collection st)\<rparr>)))"

definition delete_announcement ::
  "env \<Rightarrow> store \<Rightarrow> string \<Rightarrow> string option \<Rightarrow> (exn + document) \<times> store" where
  "delete_announcement e st announcement_id teacher_username =
     (case require_teacher e st teacher_username of
        Inl x \<Rightarrow> (Inl x, st)
      | Inr _ \<Rightarrow>
          (case ObjectId announcement_id of
             None \<Rightarrow> (Inl (HTTPException 400 ''Invalid announcement id''), st)
           | Some announcement_object_id \<Rightarrow>
               (case delete_body e st announcement_object_id of
                  (r, st') \<Rightarrow> (except_HTTPException_raise ''Failed to delete announcement'' r, st'))))"

subsection \<open>What the specification calls a date string\<close>

text \<open>A valid \<open>YYYY-MM-DD\<close> string: four ASCII digits, two and two, separated by
  \<open>-\<close>, that name a day of the calendar.\<close>

fun iso_date_string :: "unicode \<Rightarrow> bool" where
  "iso_date_string [y1, y2, y3, y4, h1, m1, m2, h2, d1, d2] =
     (in_range 0 9 y1 \<and> in_range 0 9 y2 \<and> in_range 0 9 y3 \<and> in_range 0 9 y4 \<and> h1 = 45 \<and>
      in_range 0 9 m1 \<and> in_range 0 9 m2 \<and> h2 = 45 \<and> in_range 0 9 d1 \<and> in_range 0 9 d2 \<and>
      valid_date \<lparr>year = 1000 * (y1 - 48) + 100 * (y2 - 48) + 10 * (y3 - 48) + (y4 - 48),
                  month = 10 * (m1 - 48) + (m2 - 48),
                  day = 10 * (d1 - 48) + (d2 - 48)\<rparr>)"
| "iso_date_string _ = False"

text \<open>
  The texts that \<open>strptime\<close> takes.  A year is four decimal digits of any script.  A
  month is two ASCII digits, or one without its zero.  A day is two ASCII digits, or one
  without its zero, or one after a space, or an ASCII \<open>1\<close> or \<open>2\<close> followed by a decimal
  digit of any script.
\<close>

definition year_text :: "nat \<Rightarrow> unicode \<Rightarrow> bool" where
  "year_text y t =
     (\<exists>a b c d. t = [a, b, c, d] \<and> is_digit a \<and> is_digit b \<and> is_digit c \<and> is_digit d \<and>
        y = 1000 * digit_val a + 100 * digit_val b + 10 * digit_val c + digit_val d)"

definition month_text :: "nat \<Rightarrow> unicode \<Rightarrow> bool" where
  "month_text m t = (t = unicode_of (pad2 m) \<or> (m < 10 \<and> t = [48 + m]))"

definition day_text :: "nat \<Rightarrow> unicode \<Rightarrow> bool" where
  "day_text d t =
     (t = unicode_of (pad2 d) \<or> (d < 10 \<and> (t = [48 + d] \<or> t = [32, 48 + d])) \<or>
      (\<exists>c. 10 \<le> d \<and> d < 30 \<and> is_digit c \<and> digit_val c = d mod 10 \<and> t = [48 + d div 10, c]))"

definition accepted_date_string :: "unicode \<Rightarrow> bool" where
  "accepted_date_string s =
     (\<exists>d yt mt dt. valid_date d \<and> year_text (year d) yt \<and> month_text (month d) mt \<and>
        day_text (day d) dt \<and> s = yt @ 45 # mt @ 45 # dt)"

subsection \<open>What the specification calls active, and ordered\<close>

text \<open>The date that a field of a document holds, when its value is a valid
  \<open>YYYY-MM-DD\<close> string.\<close>

definition field_date :: "document \<Rightarrow> string \<Rightarrow> date option" where
  "field_date d k =
     (case map_of d k of
        Some (PStr s) \<Rightarrow>
          if iso_date_string (unicode_of s) then strptime (unicode_of s) else None
      | _ \<Rightarrow> None)"

text \<open>\<open>start_date\<close> is absent, null or empty.\<close>

definition start_absent :: "document \<Rightarrow> bool" where
  "start_absent d =
     (map_of d ''start_date'' = None \<or> map_of d ''start_date'' = Some PNone \<or>
      map_of d ''start_date'' = Some (PStr []))"

text \<open>Active on the day \<open>D\<close>: \<open>end_date\<close> is on or after \<open>D\<close>, and \<open>start_date\<close> is
  absent, null, empty, or on or before \<open>D\<close>.\<close>

definition active_on :: "date \<Rightarrow> document \<Rightarrow> bool" where
  "active_on D d =
     ((case field_date d ''end_date'' of Some e \<Rightarrow> date_le D e | None \<Rightarrow> False) \<and>
      (start_absent d \<or>
       (case field_date d ''start_date'' of Some s \<Rightarrow> date_le s D | None \<Rightarrow> False)))"

text \<open>The data model has dates as ISO date strings: a date field that holds a string
  holds a valid \<open>YYYY-MM-DD\<close> string or the empty string.  (A field may be missing, null
  or of another type.)\<close>

definition date_text_ok :: "pyval option \<Rightarrow> bool" where
  "date_text_ok v =
     (case v of Some (PStr s) \<Rightarrow> s = [] \<or> iso_date_string (unicode_of s) | _ \<Rightarrow> True)"

definition dates_well_formed :: "document \<Rightarrow> bool" where
  "dates_well_formed d = (date_text_ok (map_of d ''end_date'') \<and> date_text_ok (map_of d ''start_date''))"

text \<open>Strictly before, in the order of the store.\<close>

definition bson_less :: "pyval \<Rightarrow> pyval \<Rightarrow> bool" where
  "bson_less a b = (bson_le a b \<and> a \<noteq> b)"

text \<open>\<open>a\<close> may come before \<open>b\<close> when the list is ordered by \<open>start_date\<close> ascending, then
  \<open>created_at\<close> descending; and by \<open>end_date\<close> descending, then \<open>start_date\<close> descending.\<close>

definition start_asc_created_desc :: "document \<Rightarrow> document \<Rightarrow> bool" where
  "start_asc_created_desc a b =
     (bson_less (doc_get a ''start_date'') (doc_get b ''start_date'') \<or>
      (doc_get a ''start_date'' = doc_get b ''start_date'' \<and>
       bson_le (doc_get b ''created_at'') (doc_get a ''created_at'')))"

definition end_desc_start_desc :: "document \<Rightarrow> document \<Rightarrow> bool" where
  "end_desc_start_desc a b =
     (bson_less (doc_get b ''end_date'') (doc_get a ''end_date'') \<or>
      (doc_get a ''end_date'' = doc_get b ''end_date'' \<and>
       bson_le (doc_get b ''start_date'') (doc_get a ''start_date'')))"

subsection \<open>Example data\<close>

text \<open>A teacher, two stored announcements and a clock, used to run the handlers on
  concrete requests.\<close>

definition example_env :: env where
  "example_env =
     \<lparr>today = \<lparr>year = 2024, month = 5, day = 1\<rparr>,
      utcnow = (\<lambda>n. 1000 + n),
      new_oid = ''507f1f77bcf86cd799439013'',
      raises = (\<lambda>c. None)\<rparr>"

definition exam_doc :: document where
  "exam_doc =
     [(''_id'', PObjectId ''507f1f77bcf86cd799439011''),
      (''title'', PStr ''Exam''), (''message'', PStr ''Midterm Friday''),
      (''start_date'', PNone), (''end_date'', PStr ''2024-05-10''),
      (''created_at'', PDatetime 10), (''updated_at'', PDatetime 10)]"

definition fair_doc :: document where
  "fair_doc =
     [(''_id'', PObjectId ''507f1f77bcf86cd799439012''),
      (''title'', PStr ''Science fair''), (''message'', PStr ''In the gym''),
      (''start_date'', PStr ''2024-06-01''), (''end_date'', PStr ''2024-06-30''),
      (''created_at'', PDatetime 20), (''updated_at'', PDatetime 20)]"

definition example_store :: store where
  "example_store =
     \<lparr>announcements_collection = [exam_doc, fair_doc],
      teachers_collection = [[(''_id'', PStr ''mrodriguez''), (''display_name'', PStr ''Ms. Rodriguez'')]]\<rparr>"

definition example_payload :: AnnouncementPayload where
  "example_payload =
     \<lparr>title = ''Exam'', message = ''Midterm Friday'', start_date = None,
      end_date = Some (unicode_of ''2024-05-10'')\<rparr>"

text \<open>The same clock and ids with a store that has lost its connection: to the teachers,
  or to the announcements.\<close>

definition teachers_down_env :: env where
  "teachers_down_env =
     example_env\<lparr>raises := (\<lambda>c. if c = TeachersFindOne then Some ''connection refused'' else None)\<rparr>"

definition announcements_down_env :: env where
  "announcements_down_env =
     example_env\<lparr>raises := (\<lambda>c. if c = TeachersFindOne then None else Some ''connection refused'')\<rparr>"

text \<open>A store on which one kind of call to the announcements raises, and a driver that
  generates an id that an announcement already has.\<close>

definition find_one_down_env :: env where
  "find_one_down_env =
     example_env\<lparr>raises := (\<lambda>c. if c = AnnouncementsFindOne then Some ''connection reset'' else None)\<rparr>"

definition delete_one_down_env :: env where
  "delete_one_down_env =
     example_env\<lparr>raises := (\<lambda>c. if c = AnnouncementsDeleteOne then Some ''connection reset'' else None)\<rparr>"

definition duplicate_id_env :: env where
  "duplicate_id_env = example_env\<lparr>new_oid := ''507f1f77bcf86cd799439011''\<rparr>"

text \<open>The fields that \<open>update_announcement\<close> sets.\<close>

definition content_fields :: "string set" where
  "content_fields = {''title'', ''message'', ''start_date'', ''end_date'', ''updated_at''}"

section \<open>Properties\<close>

subsection \<open>Digits, \<open>isoformat\<close> and \<open>strptime\<close>\<close>

lemma of_char_digit_char: "(of_char (digit_char n) :: nat) = 48 + n mod 10"
proof -
  have "(48 + n mod 10) mod 256 = 48 + n mod 10"
    by (rule mod_less) arith
  then show ?thesis by (simp add: digit_char_def)
qed

lemma digit_char_inj: "j < 10 \<Longrightarrow> k < 10 \<Longrightarrow> digit_char j = digit_char k \<longleftrightarrow> j = k"
proof
  assume "j < 10" "k < 10" "digit_char j = digit_char k"
  then have "(of_char (digit_char j) :: nat) = of_char (digit_char k)" by simp
  with \<open>j < 10\<close> \<open>k < 10\<close> show "j = k" by (simp add: of_char_digit_char)
qed simp

lemma digit_char_mod [simp]: "digit_char (10 * a + b) = digit_char b"
  by (simp add: digit_char_def)

lemma pad2_digits: "b < 10 \<Longrightarrow> pad2 (10 * a + b) = [digit_char a, digit_char b]"
  by (simp add: pad2_def)

lemma four_digits:
  "(y::nat) = 1000 * (y div 1000) + 100 * (y div 100 mod 10) + 10 * (y div 10 mod 10) + y mod 10"
proof -
  have a: "y div 100 = y div 10 div 10" "y div 1000 = y div 10 div 10 div 10"
    by (simp_all add: div_mult2_eq)
  have 1: "y = 10 * (y div 10) + y mod 10" by simp
  have 2: "y div 10 = 10 * (y div 10 div 10) + y div 10 mod 10" by simp
  have 3: "y div 10 div 10 = 10 * (y div 10 div 10 div 10) + y div 10 div 10 mod 10" by simp
  show ?thesis unfolding a using 1 2 3 by linarith
qed

lemma pad4_digits:
  assumes "b < 10" "c < 10" "d < 10"
  shows "pad4 (1000 * a + 100 * b + 10 * c + d) = [digit_char a, digit_char b, digit_char c, digit_char d]"
proof -
  let ?n = "1000 * a + 100 * b + 10 * c + d"
  have n0: "?n = 10 * (100 * a + 10 * b + c) + d" by simp
  have n1: "100 * a + 10 * b + c = 10 * (10 * a + b) + c" by simp
  have d1: "?n div 10 = 100 * a + 10 * b + c" using assms by simp
  have d2: "?n div 100 = 10 * a + b" using assms by simp
  have d3: "?n div 1000 = a" using assms by simp
  have "digit_char ?n = digit_char d"
    by (subst n0) (rule digit_char_mod)
  moreover have "digit_char (?n div 10) = digit_char c"
    unfolding d1 by (subst n1) (rule digit_char_mod)
  moreover have "digit_char (?n div 100) = digit_char b"
    unfolding d2 by (rule digit_char_mod)
  ultimately show ?thesis
    unfolding pad4_def d3 by simp
qed

lemma days_in_month_le: "days_in_month y m \<le> 31"
  by (simp add: days_in_month_def)

text \<open>The code points of \<open>isoformat\<close>.\<close>

lemma unicode_of_Nil [simp]: "unicode_of [] = []"
  by (simp add: unicode_of_def)

lemma unicode_of_digits2:
  "a < 10 \<Longrightarrow> b < 10 \<Longrightarrow> unicode_of (pad2 (10 * a + b)) = [48 + a, 48 + b]"
  by (simp add: pad2_digits unicode_of_def of_char_digit_char)

lemma unicode_of_digits4:
  "a < 10 \<Longrightarrow> b < 10 \<Longrightarrow> c < 10 \<Longrightarrow> d < 10 \<Longrightarrow>
     unicode_of (pad4 (1000 * a + 100 * b + 10 * c + d)) = [48 + a, 48 + b, 48 + c, 48 + d]"
  by (simp add: pad4_digits unicode_of_def of_char_digit_char)

lemma unicode_of_isoformat:
  "unicode_of (isoformat d) =
     unicode_of (pad4 (year d)) @ 45 # unicode_of (pad2 (month d)) @ 45 # unicode_of (pad2 (day d))"
  by (simp add: isoformat_def unicode_of_def)

lemma two_digits:
  fixes n :: nat
  assumes "n < 100"
  obtains a b where "a < 10" "b < 10" "n = 10 * a + b"
proof -
  from assms have "n div 10 < 10" "n mod 10 < 10" "n = 10 * (n div 10) + n mod 10" by simp_all
  then show thesis by (rule that)
qed

lemma four_digits_cases:
  fixes n :: nat
  assumes "n \<le> 9999"
  obtains a b c d where "a < 10" "b < 10" "c < 10" "d < 10" "n = 1000 * a + 100 * b + 10 * c + d"
proof -
  from assms have "n div 1000 < 10" by simp
  moreover have "n div 100 mod 10 < 10" "n div 10 mod 10 < 10" "n mod 10 < 10" by simp_all
  ultimately show thesis using four_digits [of n] by (rule that)
qed

text \<open>The decimal digits: the ASCII ones, and what every one of them satisfies.\<close>

lemma decimal_value_ascii: "k < 10 \<Longrightarrow> decimal_value (48 + k) = Some k"
  by (simp add: decimal_value_def decimal_zeros_def)

lemma decimal_zeros_ge: "z \<in> set decimal_zeros \<Longrightarrow> 48 \<le> z"
  by (auto simp: decimal_zeros_def)

lemma decimal_value_Some:
  assumes "decimal_value c = Some k"
  shows "k < 10 \<and> 48 \<le> c"
proof -
  from assms obtain z where z: "List.find (\<lambda>z. z \<le> c \<and> c < z + 10) decimal_zeros = Some z"
    and k: "k = c - z"
    by (auto simp: decimal_value_def split: option.splits)
  from z have "z \<in> set decimal_zeros" "z \<le> c" "c < z + 10"
    by (auto simp: find_Some_iff)
  with k decimal_zeros_ge [of z] show ?thesis by simp
qed

lemma is_digit_ascii [simp]: "k < 10 \<Longrightarrow> is_digit (48 + k)"
  by (simp add: is_digit_def decimal_value_ascii)

lemma digit_val_ascii [simp]: "k < 10 \<Longrightarrow> digit_val (48 + k) = k"
  by (simp add: digit_val_def decimal_value_ascii)

lemma digit_val_less: "digit_val c < 10"
  using decimal_value_Some [of c] by (cases "decimal_value c") (simp_all add: digit_val_def)

lemma is_digit_ge: "is_digit c \<Longrightarrow> 48 \<le> c"
  using decimal_value_Some [of c] by (auto simp: is_digit_def)

lemma decimal_value_dash_space: "decimal_value 45 = None" "decimal_value 32 = None"
  by (simp_all add: decimal_value_def decimal_zeros_def)

lemma not_digit [simp]: "\<not> is_digit 45" "\<not> is_digit 32" "digit_val 32 = 0"
  by (simp_all add: digit_val_def is_digit_def decimal_value_dash_space)

lemma in_range_ascii [simp]: "in_range lo hi (48 + k) = (lo \<le> k \<and> k \<le> hi)"
  by (simp add: in_range_def)

lemma not_in_range [simp]: "\<not> in_range lo hi 45" "\<not> in_range lo hi 32"
  by (simp_all add: in_range_def)

lemma in_range_cases:
  assumes "in_range lo hi c" "hi < 10"
  obtains k where "k < 10" "lo \<le> k" "k \<le> hi" "c = 48 + k"
proof -
  from assms(1) have b: "48 + lo \<le> c" "c \<le> 48 + hi" by (simp_all add: in_range_def)
  with assms(2) have "c - 48 < 10" "lo \<le> c - 48" "c - 48 \<le> hi" "c = 48 + (c - 48)"
    by arith+
  then show thesis by (rule that)
qed

text \<open>\<open>strptime\<close> reads what \<open>isoformat\<close> writes.\<close>

lemma match_Y_pad4: "y \<le> 9999 \<Longrightarrow> match_Y (unicode_of (pad4 y) @ r) = [(y, r)]"
proof -
  assume "y \<le> 9999"
  then obtain a b c d where "a < 10" "b < 10" "c < 10" "d < 10"
    "y = 1000 * a + 100 * b + 10 * c + d" by (rule four_digits_cases)
  then show ?thesis by (simp add: unicode_of_digits4)
qed

lemma match_m_pad2:
  assumes "1 \<le> m" "m \<le> 12"
  shows "\<exists>alts. match_m (unicode_of (pad2 m) @ r) = (m, r) # alts"
proof -
  from assms have "m < 100" by simp
  then obtain a b where "a < 10" "b < 10" "m = 10 * a + b" by (rule two_digits)
  with assms show ?thesis
    by (auto simp: match_m_def unicode_of_digits2)
qed

lemma match_d_pad2:
  assumes "1 \<le> d" "d \<le> 31"
  shows "\<exists>alts. match_d (unicode_of (pad2 d) @ r) = (d, r) # alts"
proof -
  from assms have "d < 100" by simp
  then obtain a b where "a < 10" "b < 10" "d = 10 * a + b" by (rule two_digits)
  with assms show ?thesis
    by (auto simp: match_d_def unicode_of_digits2)
qed

lemma match_format_isoformat:
  assumes "valid_date d"
  shows "\<exists>alts. match_format (unicode_of (isoformat d)) = (d, []) # alts"
proof -
  from assms have y: "year d \<le> 9999" and m: "1 \<le> month d" "month d \<le> 12"
    and dd: "1 \<le> day d" "day d \<le> 31"
    using days_in_month_le [of "year d" "month d"] by (auto simp: valid_date_def)
  obtain am where am: "match_m (unicode_of (pad2 (month d)) @ 45 # unicode_of (pad2 (day d))) =
      (month d, 45 # unicode_of (pad2 (day d))) # am"
    using match_m_pad2 [OF m] by blast
  obtain ad where ad: "match_d (unicode_of (pad2 (day d)) @ []) = (day d, []) # ad"
    using match_d_pad2 [OF dd] by blast
  show ?thesis
    using match_Y_pad4 [OF y] am ad by (simp add: match_format_def unicode_of_isoformat)
qed

lemma strptime_isoformat: "valid_date d \<Longrightarrow> strptime (unicode_of (isoformat d)) = Some d"
  using match_format_isoformat [of d] by (auto simp: strptime_def)

lemma iso_date_string_isoformat:
  assumes "iso_date_string s"
  shows "\<exists>d. valid_date d \<and> s = unicode_of (isoformat d)"
  using assms
proof (induction s rule: iso_date_string.induct)
  case (1 y1 y2 y3 y4 h1 m1 m2 h2 d1 d2)
  then have dg: "in_range 0 9 y1" "in_range 0 9 y2" "in_range 0 9 y3" "in_range 0 9 y4"
     "in_range 0 9 m1" "in_range 0 9 m2" "in_range 0 9 d1" "in_range 0 9 d2"
    and h: "h1 = 45" "h2 = 45"
    by simp_all
  have n: "(9::nat) < 10" by simp
  from dg(1) n obtain a where a: "a < 10" "y1 = 48 + a" by (rule in_range_cases)
  from dg(2) n obtain b where b: "b < 10" "y2 = 48 + b" by (rule in_range_cases)
  from dg(3) n obtain c where c: "c < 10" "y3 = 48 + c" by (rule in_range_cases)
  from dg(4) n obtain d where d: "d < 10" "y4 = 48 + d" by (rule in_range_cases)
  from dg(5) n obtain e where e: "e < 10" "m1 = 48 + e" by (rule in_range_cases)
  from dg(6) n obtain f where f: "f < 10" "m2 = 48 + f" by (rule in_range_cases)
  from dg(7) n obtain g where g: "g < 10" "d1 = 48 + g" by (rule in_range_cases)
  from dg(8) n obtain i where i: "i < 10" "d2 = 48 + i" by (rule in_range_cases)
  note k = a(1) b(1) c(1) d(1) e(1) f(1) g(1) i(1)
  note c = a(2) b(2) c(2) d(2) e(2) f(2) g(2) i(2)
  let ?d = "\<lparr>year = 1000 * a + 100 * b + 10 * c + d, month = 10 * e + f, day = 10 * g + i\<rparr>"
  from 1 c have "valid_date ?d" by simp
  moreover have "[y1, y2, y3, y4, h1, m1, m2, h2, d1, d2] = unicode_of (isoformat ?d)"
    using k c h by (simp add: unicode_of_isoformat unicode_of_digits4 unicode_of_digits2)
  ultimately show ?case by blast
qed simp_all

text \<open>What \<open>strptime\<close> reads has one of the accepted forms.\<close>

lemma match_Y_elem:
  assumes "(y, r) \<in> set (match_Y s)"
  shows "\<exists>t. year_text y t \<and> s = t @ r"
  using assms
proof (induction s rule: match_Y.induct)
  case (1 a b c d rest)
  then have "year_text y [a, b, c, d]" and "r = rest"
    by (simp_all add: year_text_def split: if_splits)
  then show ?case by auto
qed simp_all

lemma match_dash_elem: "r \<in> set (match_dash s) \<Longrightarrow> s = 45 # r"
  by (cases s) (auto split: if_splits)

lemma two_chars_elem:
  assumes "(n, r) \<in> set (two_chars p q s)"
  obtains a b where "s = a # b # r" "p a" "q b"
    "n = (if is_digit a then 10 * digit_val a else 0) + digit_val b"
  using assms by (induction p q s rule: two_chars.induct) (auto split: if_splits)

lemma one_char_elem:
  assumes "(n, r) \<in> set (one_char p s)"
  obtains a where "s = a # r" "p a" "n = digit_val a"
  using assms by (cases s) (auto split: if_splits)

lemma two_digit_text:
  assumes "(n, r) \<in> set (two_chars (in_range lo hi) (in_range lo' hi') s)" "hi < 10" "hi' < 10"
  shows "s = unicode_of (pad2 n) @ r"
proof -
  from assms(1) obtain a b where ab: "s = a # b # r" "in_range lo hi a" "in_range lo' hi' b"
    "n = (if is_digit a then 10 * digit_val a else 0) + digit_val b"
    by (rule two_chars_elem)
  from ab(2) assms(2) obtain i where i: "i < 10" "a = 48 + i" by (rule in_range_cases)
  from ab(3) assms(3) obtain j where j: "j < 10" "b = 48 + j" by (rule in_range_cases)
  from ab(4) i j have "n = 10 * i + j" by simp
  with ab(1) i j show ?thesis by (simp add: unicode_of_digits2)
qed

lemma digit_any_text:
  assumes "(n, r) \<in> set (two_chars (in_range 1 2) is_digit s)"
  shows "\<exists>c. 10 \<le> n \<and> n < 30 \<and> is_digit c \<and> digit_val c = n mod 10 \<and> s = [48 + n div 10, c] @ r"
proof -
  from assms obtain a b where ab: "s = a # b # r" "in_range 1 2 a" "is_digit b"
    "n = (if is_digit a then 10 * digit_val a else 0) + digit_val b"
    by (rule two_chars_elem)
  have "(2::nat) < 10" by simp
  with ab(2) obtain i where i: "i < 10" "1 \<le> i" "i \<le> 2" "a = 48 + i" by (rule in_range_cases)
  from ab(4) i have n: "n = 10 * i + digit_val b" by simp
  with digit_val_less [of b] i have "10 \<le> n" "n < 30" "n mod 10 = digit_val b" "n div 10 = i"
    by simp_all
  with ab(1,3) i show ?thesis by simp
qed

lemma one_digit_text:
  assumes "(n, r) \<in> set (one_char (in_range lo hi) s)" "hi < 10"
  shows "n < 10 \<and> s = (48 + n) # r"
proof -
  from assms(1) obtain a where a: "s = a # r" "in_range lo hi a" "n = digit_val a"
    by (rule one_char_elem)
  from a(2) assms(2) obtain i where "i < 10" "a = 48 + i" by (rule in_range_cases)
  with a show ?thesis by simp
qed

lemma space_digit_text:
  assumes "(n, r) \<in> set (two_chars (\<lambda>c. c = 32) (in_range lo hi) s)" "hi < 10"
  shows "n < 10 \<and> s = [32, 48 + n] @ r"
proof -
  from assms(1) obtain a b where ab: "s = a # b # r" "a = 32" "in_range lo hi b"
    "n = (if is_digit a then 10 * digit_val a else 0) + digit_val b"
    by (rule two_chars_elem)
  from ab(3) assms(2) obtain j where j: "j < 10" "b = 48 + j" by (rule in_range_cases)
  with ab show ?thesis by simp
qed

lemma match_m_elem:
  assumes "(m, r) \<in> set (match_m s)"
  shows "\<exists>t. month_text m t \<and> s = t @ r"
proof -
  from assms consider
    "(m, r) \<in> set (two_chars (in_range 1 1) (in_range 0 2) s)"
    | "(m, r) \<in> set (two_chars (in_range 0 0) (in_range 1 9) s)"
    | "(m, r) \<in> set (one_char (in_range 1 9) s)"
    by (auto simp: match_m_def)
  then show ?thesis
  proof cases
    case 1
    then have "s = unicode_of (pad2 m) @ r" by (rule two_digit_text) simp_all
    then show ?thesis by (auto simp: month_text_def)
  next
    case 2
    then have "s = unicode_of (pad2 m) @ r" by (rule two_digit_text) simp_all
    then show ?thesis by (auto simp: month_text_def)
  next
    case 3
    then have "m < 10 \<and> s = [48 + m] @ r" using one_digit_text [of m r 1 9 s] by simp
    then show ?thesis unfolding month_text_def by blast
  qed
qed

lemma match_d_elem:
  assumes "(d, r) \<in> set (match_d s)"
  shows "\<exists>t. day_text d t \<and> s = t @ r"
proof -
  from assms consider
    "(d, r) \<in> set (two_chars (in_range 3 3) (in_range 0 1) s)"
    | "(d, r) \<in> set (two_chars (in_range 1 2) is_digit s)"
    | "(d, r) \<in> set (two_chars (in_range 0 0) (in_range 1 9) s)"
    | "(d, r) \<in> set (one_char (in_range 1 9) s)"
    | "(d, r) \<in> set (two_chars (\<lambda>c. c = 32) (in_range 1 9) s)"
    by (auto simp: match_d_def)
  then show ?thesis
  proof cases
    case 1
    then have "s = unicode_of (pad2 d) @ r" by (rule two_digit_text) simp_all
    then show ?thesis by (auto simp: day_text_def)
  next
    case 2
    from digit_any_text [OF this] obtain c where "10 \<le> d" "d < 30" "is_digit c"
      "digit_val c = d mod 10" "s = [48 + d div 10, c] @ r" by blast
    then have "day_text d [48 + d div 10, c]" "s = [48 + d div 10, c] @ r"
      by (auto simp: day_text_def)
    then show ?thesis by blast
  next
    case 3
    then have "s = unicode_of (pad2 d) @ r" by (rule two_digit_text) simp_all
    then show ?thesis by (auto simp: day_text_def)
  next
    case 4
    then have "d < 10 \<and> s = [48 + d] @ r" using one_digit_text [of d r 1 9 s] by simp
    then show ?thesis unfolding day_text_def by blast
  next
    case 5
    then have "d < 10 \<and> s = [32, 48 + d] @ r" by (rule space_digit_text) simp
    then show ?thesis unfolding day_text_def by blast
  qed
qed

lemma match_format_elem:
  assumes "(d, r) \<in> set (match_format s)"
  shows "\<exists>yt mt dt. year_text (year d) yt \<and> month_text (month d) mt \<and> day_text (day d) dt \<and>
           s = yt @ 45 # mt @ 45 # dt @ r"
proof -
  from assms obtain y r1 r2 m r3 r4 dd where
    Y: "(y, r1) \<in> set (match_Y s)" and h1: "r2 \<in> set (match_dash r1)" and
    M: "(m, r3) \<in> set (match_m r2)" and h2: "r4 \<in> set (match_dash r3)" and
    D: "(dd, r) \<in> set (match_d r4)" and d: "d = \<lparr>year = y, month = m, day = dd\<rparr>"
    by (auto simp: match_format_def)
  from Y obtain yt where yt: "year_text y yt" "s = yt @ r1" using match_Y_elem by blast
  from M obtain mt where mt: "month_text m mt" "r2 = mt @ r3" using match_m_elem by blast
  from D obtain dt where dt: "day_text dd dt" "r4 = dt @ r" using match_d_elem by blast
  from match_dash_elem [OF h1] match_dash_elem [OF h2] yt mt dt d
  show ?thesis by auto
qed

lemma strptime_accepted:
  assumes "strptime s = Some d"
  shows "accepted_date_string s"
proof -
  from assms obtain rest where m: "match_format s = (d, []) # rest" and v: "valid_date d"
    by (auto simp: strptime_def split: list.splits if_splits)
  then have "(d, []) \<in> set (match_format s)" by simp
  from match_format_elem [OF this] v show ?thesis
    unfolding accepted_date_string_def by auto
qed

text \<open>
  Claim C3, as the code has it.  A valid \<open>YYYY-MM-DD\<close> string, of ASCII digits, parses to
  a date whose \<open>isoformat\<close> is the string again.  \<open>parse_date\<close> fails with status 400 on
  every text that is not empty and has none of the forms that \<open>strptime\<close> takes for a
  year, a month and a day of the calendar (\<open>2024/01/01\<close> has none of them); the empty
  string and \<open>None\<close> are no error: they give \<open>None\<close>.
\<close>

theorem parse_date_strings:
  "(iso_date_string s \<longrightarrow>
      (\<exists>d. parse_date (Some s) field_name = Inr (Some d) \<and> unicode_of (isoformat d) = s)) \<and>
   (s \<noteq> [] \<and> \<not> accepted_date_string s \<longrightarrow>
      parse_date (Some s) field_name =
        Inl (HTTPException 400 (field_name @ '' must be in YYYY-MM-DD format''))) \<and>
   parse_date (Some []) field_name = Inr None \<and>
   parse_date None field_name = Inr None"
proof (intro conjI impI)
  assume "iso_date_string s"
  then obtain d where d: "valid_date d" "s = unicode_of (isoformat d)"
    using iso_date_string_isoformat by blast
  then have "s \<noteq> []" by (simp add: unicode_of_def isoformat_def pad4_def)
  with d show "\<exists>d. parse_date (Some s) field_name = Inr (Some d) \<and> unicode_of (isoformat d) = s"
    by (auto simp: parse_date_def strptime_isoformat)
next
  assume a: "s \<noteq> [] \<and> \<not> accepted_date_string s"
  then have "strptime s = None" using strptime_accepted [of s] by (cases "strptime s") auto
  with a show "parse_date (Some s) field_name =
        Inl (HTTPException 400 (field_name @ '' must be in YYYY-MM-DD format''))"
    by (simp add: parse_date_def)
qed (simp_all add: parse_date_def)

lemmas eval_date = strptime_def match_format_def match_m_def match_d_def in_range_def is_digit_def
  digit_val_def valid_date_def days_in_month_def is_leap_def parse_date_def unicode_of_def
  decimal_value_def decimal_zeros_def

theorem parse_date_strings_witness:
  "iso_date_string (unicode_of ''2024-05-10'') \<and>
   parse_date (Some (unicode_of ''2024-05-10'')) ''end_date'' =
     Inr (Some \<lparr>year = 2024, month = 5, day = 10\<rparr>) \<and>
   isoformat \<lparr>year = 2024, month = 5, day = 10\<rparr> = ''2024-05-10'' \<and>
   unicode_of ''2024/01/01'' \<noteq> [] \<and> \<not> accepted_date_string (unicode_of ''2024/01/01'') \<and>
   parse_date (Some (unicode_of ''2024/01/01'')) ''end_date'' =
     Inl (HTTPException 400 ''end_date must be in YYYY-MM-DD format'')"
proof -
  have a: "iso_date_string (unicode_of ''2024-05-10'')" by (simp add: eval_date)
  have b: "unicode_of ''2024/01/01'' \<noteq> [] \<and> \<not> accepted_date_string (unicode_of ''2024/01/01'')"
    by (auto simp: accepted_date_string_def year_text_def unicode_of_def)
  have c: "parse_date (Some (unicode_of ''2024-05-10'')) ''end_date'' =
      Inr (Some \<lparr>year = 2024, month = 5, day = 10\<rparr>)"
    by (simp add: eval_date)
  have i: "isoformat \<lparr>year = 2024, month = 5, day = 10\<rparr> = ''2024-05-10''"
    by (simp add: isoformat_def pad4_def pad2_def digit_char_def char_of_eq_iff)
  from a b c i parse_date_strings [of "unicode_of ''2024-05-10''" "''end_date''"]
    parse_date_strings [of "unicode_of ''2024/01/01''" "''end_date''"]
  show ?thesis by auto
qed

text \<open>
  The claim as stated, that every string not in \<open>YYYY-MM-DD\<close> format gives status 400,
  fails at the empty string, which the first test of \<open>parse_date\<close> turns into \<open>None\<close>;
  at \<open>2024-1-5\<close>, which \<open>strptime\<close> reads as the fifth of January; and at the text whose
  year is written with the Arabic-Indic digits \<open>U+0662 U+0660 U+0662 U+0664\<close>, which is
  read as the year 2024.  Of the last two \<open>isoformat\<close> does not give the text back.
\<close>

theorem parse_date_not_in_format_counterexample:
  "\<not> iso_date_string [] \<and> parse_date (Some []) ''end_date'' = Inr None \<and>
   \<not> iso_date_string (unicode_of ''2024-1-5'') \<and>
   parse_date (Some (unicode_of ''2024-1-5'')) ''end_date'' =
     Inr (Some \<lparr>year = 2024, month = 1, day = 5\<rparr>) \<and>
   unicode_of (isoformat \<lparr>year = 2024, month = 1, day = 5\<rparr>) \<noteq> unicode_of ''2024-1-5'' \<and>
   \<not> iso_date_string [1634, 1632, 1634, 1636, 45, 48, 53, 45, 49, 48] \<and>
   parse_date (Some [1634, 1632, 1634, 1636, 45, 48, 53, 45, 49, 48]) ''end_date'' =
     Inr (Some \<lparr>year = 2024, month = 5, day = 10\<rparr>) \<and>
   unicode_of (isoformat \<lparr>year = 2024, month = 5, day = 10\<rparr>) \<noteq>
     [1634, 1632, 1634, 1636, 45, 48, 53, 45, 49, 48]"
  by (simp add: eval_date isoformat_def pad4_def pad2_def of_char_digit_char)

subsection \<open>Running the handlers\<close>

lemmas eval_store = store_call_def find_one_def doc_get_def except_Exception_def
  except_HTTPException_raise_def require_teacher_def checked_dates_def validate_date_range_def
  date_less_def example_env_def example_store_def example_payload_def exam_doc_def fair_doc_def

lemmas eval_handlers = create_announcement_def update_announcement_def update_body_def
  delete_announcement_def delete_body_def list_announcements_def get_active_announcements_def
  insert_one_def ObjectId_def Py_ISSPACE_def is_hex_def lower_hex_def serialize_announcement_def iso_or_None_def
  strip_def isspace_def isoformat_def pad4_def pad2_def digit_char_def char_of_eq_iff
  set_fields_def find_sorted_def sort_by_def active_query_def Let_def payload_ok_def

lemma ex_teacher: "require_teacher example_env example_store (Some ''mrodriguez'') =
    Inr [(''_id'', PStr ''mrodriguez''), (''display_name'', PStr ''Ms. Rodriguez'')]"
  by (simp add: eval_store)


subsection \<open>Validation of the payload\<close>

text \<open>
  Claim C2.  For an authenticated teacher and a payload whose \<open>start_date\<close> and
  \<open>end_date\<close> both parse, with the start strictly after the end, \<open>create_announcement\<close>
  and \<open>update_announcement\<close> fail with status 400 whatever the title, the message and
  the announcement id are, and the store is left as it was.
\<close>

theorem start_after_end_rejected:
  assumes "require_teacher e st u = Inr t"
    and "parse_date (start_date p) ''start_date'' = Inr (Some s)"
    and "parse_date (end_date p) ''end_date'' = Inr (Some d)"
    and "date_less d s"
  shows "create_announcement e st p u =
           (Inl (HTTPException 400 ''start_date must be on or before end_date''), st) \<and>
         update_announcement e st i p u =
           (Inl (HTTPException 400 ''start_date must be on or before end_date''), st)"
  using assms
  by (simp add: create_announcement_def update_announcement_def checked_dates_def
      validate_date_range_def)

theorem start_after_end_rejected_witness:
  "require_teacher example_env example_store (Some ''mrodriguez'') =
     Inr [(''_id'', PStr ''mrodriguez''), (''display_name'', PStr ''Ms. Rodriguez'')] \<and>
   parse_date (start_date (example_payload\<lparr>start_date := Some (unicode_of ''2024-05-11'')\<rparr>)) ''start_date'' =
     Inr (Some \<lparr>year = 2024, month = 5, day = 11\<rparr>) \<and>
   parse_date (end_date (example_payload\<lparr>start_date := Some (unicode_of ''2024-05-11'')\<rparr>)) ''end_date'' =
     Inr (Some \<lparr>year = 2024, month = 5, day = 10\<rparr>) \<and>
   date_less \<lparr>year = 2024, month = 5, day = 10\<rparr> \<lparr>year = 2024, month = 5, day = 11\<rparr> \<and>
   create_announcement example_env example_store
       (example_payload\<lparr>start_date := Some (unicode_of ''2024-05-11'')\<rparr>) (Some ''mrodriguez'') =
     (Inl (HTTPException 400 ''start_date must be on or before end_date''), example_store) \<and>
   update_announcement example_env example_store ''507f1f77bcf86cd799439011''
       (example_payload\<lparr>start_date := Some (unicode_of ''2024-05-11'')\<rparr>) (Some ''mrodriguez'') =
     (Inl (HTTPException 400 ''start_date must be on or before end_date''), example_store)"
proof -
  have t: "require_teacher example_env example_store (Some ''mrodriguez'') =
     Inr [(''_id'', PStr ''mrodriguez''), (''display_name'', PStr ''Ms. Rodriguez'')]"
    by (simp add: eval_store)
  have s: "parse_date (start_date (example_payload\<lparr>start_date := Some (unicode_of ''2024-05-11'')\<rparr>)) ''start_date'' =
     Inr (Some \<lparr>year = 2024, month = 5, day = 11\<rparr>)"
    by (simp add: eval_date example_payload_def)
  have d: "parse_date (end_date (example_payload\<lparr>start_date := Some (unicode_of ''2024-05-11'')\<rparr>)) ''end_date'' =
     Inr (Some \<lparr>year = 2024, month = 5, day = 10\<rparr>)"
    by (simp add: eval_date example_payload_def)
  have l: "date_less \<lparr>year = 2024, month = 5, day = 10\<rparr> \<lparr>year = 2024, month = 5, day = 11\<rparr>"
    by (simp add: date_less_def)
  from t s d l start_after_end_rejected [OF t s d l, of "''507f1f77bcf86cd799439011''"]
  show ?thesis by simp
qed



lemma parse_date_status:
  "parse_date v f = Inl x \<Longrightarrow> x = HTTPException 400 (f @ '' must be in YYYY-MM-DD format'')"
  by (auto simp: parse_date_def split: option.splits if_splits)

lemma parse_date_absent: "v = None \<or> v = Some [] \<Longrightarrow> parse_date v f = Inr None"
  by (auto simp: parse_date_def)

lemma checked_dates_absent_end:
  assumes "require_teacher e st u = Inr t" "end_date p = None \<or> end_date p = Some []"
  shows "checked_dates e st p u =
     Inl (HTTPException 400
       (case parse_date (start_date p) ''start_date'' of
          Inl _ \<Rightarrow> ''start_date must be in YYYY-MM-DD format'' | Inr _ \<Rightarrow> ''end_date is required''))"
proof (cases "parse_date (start_date p) ''start_date''")
  case (Inl x)
  with assms parse_date_status [OF Inl] show ?thesis
    by (simp add: checked_dates_def)
next
  case (Inr s)
  with assms parse_date_absent [OF assms(2), of "''end_date''"] show ?thesis
    by (simp add: checked_dates_def)
qed

lemma checked_dates_end:
  "checked_dates e st p u = Inr (s, d) \<Longrightarrow> parse_date (end_date p) ''end_date'' = Inr (Some d)"
  by (auto simp: checked_dates_def split: sum.splits option.splits)

lemma checked_dates_Inl:
  "require_teacher e st u = Inr t \<Longrightarrow> checked_dates e st p u = Inl x \<Longrightarrow> \<exists>detail. x = HTTPException 400 detail"
  by (auto simp: checked_dates_def validate_date_range_def
      split: sum.splits option.splits if_splits dest: parse_date_status)

text \<open>
  Claim C4.  For an authenticated teacher, \<open>create_announcement\<close> and
  \<open>update_announcement\<close> fail with status 400 when \<open>end_date\<close> is absent or the empty
  string, leaving the store as it was; and whenever their outcome is anything but a
  status 400 (a stored record, a 404, a store failure), \<open>end_date\<close> parsed as a date.
\<close>

theorem end_date_required:
  assumes "require_teacher e st u = Inr t"
  shows "(end_date p = None \<or> end_date p = Some [] \<longrightarrow>
            (\<exists>detail. create_announcement e st p u = (Inl (HTTPException 400 detail), st) \<and>
                      update_announcement e st i p u = (Inl (HTTPException 400 detail), st))) \<and>
         ((\<forall>detail. fst (create_announcement e st p u) \<noteq> Inl (HTTPException 400 detail)) \<longrightarrow>
            (\<exists>d. parse_date (end_date p) ''end_date'' = Inr (Some d))) \<and>
         ((\<forall>detail. fst (update_announcement e st i p u) \<noteq> Inl (HTTPException 400 detail)) \<longrightarrow>
            (\<exists>d. parse_date (end_date p) ''end_date'' = Inr (Some d)))"
proof (intro conjI impI)
  assume "end_date p = None \<or> end_date p = Some []"
  from checked_dates_absent_end [OF assms this]
  show "\<exists>detail. create_announcement e st p u = (Inl (HTTPException 400 detail), st) \<and>
                 update_announcement e st i p u = (Inl (HTTPException 400 detail), st)"
    by (simp add: create_announcement_def update_announcement_def)
next
  assume a: "\<forall>detail. fst (create_announcement e st p u) \<noteq> Inl (HTTPException 400 detail)"
  show "\<exists>d. parse_date (end_date p) ''end_date'' = Inr (Some d)"
  proof (cases "checked_dates e st p u")
    case (Inl x)
    with checked_dates_Inl [OF assms Inl] a show ?thesis
      by (auto simp: create_announcement_def)
  next
    case (Inr sd)
    then show ?thesis using checked_dates_end [of e st p u "fst sd" "snd sd"] by auto
  qed
next
  assume a: "\<forall>detail. fst (update_announcement e st i p u) \<noteq> Inl (HTTPException 400 detail)"
  show "\<exists>d. parse_date (end_date p) ''end_date'' = Inr (Some d)"
  proof (cases "checked_dates e st p u")
    case (Inl x)
    with checked_dates_Inl [OF assms Inl] a show ?thesis
      by (auto simp: update_announcement_def)
  next
    case (Inr sd)
    then show ?thesis using checked_dates_end [of e st p u "fst sd" "snd sd"] by auto
  qed
qed



theorem end_date_required_witness:
  "require_teacher example_env example_store (Some ''mrodriguez'') =
     Inr [(''_id'', PStr ''mrodriguez''), (''display_name'', PStr ''Ms. Rodriguez'')] \<and>
   end_date (example_payload\<lparr>end_date := Some []\<rparr>) = Some [] \<and>
   create_announcement example_env example_store (example_payload\<lparr>end_date := Some []\<rparr>)
       (Some ''mrodriguez'') =
     (Inl (HTTPException 400 ''end_date is required''), example_store) \<and>
   update_announcement example_env example_store ''507f1f77bcf86cd799439011''
       (example_payload\<lparr>end_date := Some []\<rparr>) (Some ''mrodriguez'') =
     (Inl (HTTPException 400 ''end_date is required''), example_store) \<and>
   fst (create_announcement example_env example_store example_payload (Some ''mrodriguez'')) =
     Inr [(''id'', PStr ''507f1f77bcf86cd799439013''),
          (''title'', PStr ''Exam''), (''message'', PStr ''Midterm Friday''),
          (''start_date'', PNone), (''end_date'', PStr ''2024-05-10''),
          (''created_at'', PDatetime 1000), (''updated_at'', PDatetime 1001)] \<and>
   fst (update_announcement example_env example_store ''507f1f77bcf86cd799439011''
          example_payload (Some ''mrodriguez'')) =
     Inr [(''id'', PStr ''507f1f77bcf86cd799439011''),
          (''title'', PStr ''Exam''), (''message'', PStr ''Midterm Friday''),
          (''start_date'', PNone), (''end_date'', PStr ''2024-05-10''),
          (''created_at'', PDatetime 10), (''updated_at'', PDatetime 1000)] \<and>
   parse_date (end_date example_payload) ''end_date'' =
     Inr (Some \<lparr>year = 2024, month = 5, day = 10\<rparr>)"
proof -
  have t: "require_teacher example_env example_store (Some ''mrodriguez'') =
     Inr [(''_id'', PStr ''mrodriguez''), (''display_name'', PStr ''Ms. Rodriguez'')]"
    by (simp add: eval_store)
  have c: "create_announcement example_env example_store (example_payload\<lparr>end_date := Some []\<rparr>)
       (Some ''mrodriguez'') =
     (Inl (HTTPException 400 ''end_date is required''), example_store)"
    by (simp add: eval_date eval_store eval_handlers)
  have u: "update_announcement example_env example_store ''507f1f77bcf86cd799439011''
       (example_payload\<lparr>end_date := Some []\<rparr>) (Some ''mrodriguez'') =
     (Inl (HTTPException 400 ''end_date is required''), example_store)"
    by (simp add: eval_date eval_store eval_handlers)
  have c': "fst (create_announcement example_env example_store example_payload (Some ''mrodriguez'')) =
     Inr [(''id'', PStr ''507f1f77bcf86cd799439013''),
          (''title'', PStr ''Exam''), (''message'', PStr ''Midterm Friday''),
          (''start_date'', PNone), (''end_date'', PStr ''2024-05-10''),
          (''created_at'', PDatetime 1000), (''updated_at'', PDatetime 1001)]"
    by (simp add: eval_date eval_store eval_handlers)
  have u': "fst (update_announcement example_env example_store ''507f1f77bcf86cd799439011''
          example_payload (Some ''mrodriguez'')) =
     Inr [(''id'', PStr ''507f1f77bcf86cd799439011''),
          (''title'', PStr ''Exam''), (''message'', PStr ''Midterm Friday''),
          (''start_date'', PNone), (''end_date'', PStr ''2024-05-10''),
          (''created_at'', PDatetime 10), (''updated_at'', PDatetime 1000)]"
    by (simp add: eval_date eval_store eval_handlers)
  have p: "parse_date (end_date example_payload) ''end_date'' =
     Inr (Some \<lparr>year = 2024, month = 5, day = 10\<rparr>)"
    by (simp add: eval_date example_payload_def)
  from end_date_required [OF t, of "example_payload\<lparr>end_date := Some []\<rparr>" "''507f1f77bcf86cd799439011''"]
    end_date_required [OF t, of example_payload "''507f1f77bcf86cd799439011''"]
    t c u c' u' p
  show ?thesis by simp
qed

lemma find_one_None: "find_one q coll = None \<longleftrightarrow> \<not> list_ex (matches q) coll"
  by (auto simp: find_one_def find_None_iff list_ex_iff)

lemma update_one_no_match: "\<not> list_ex (matches q) coll \<Longrightarrow> update_one q ups coll = (0, coll)"
  by (induction coll) auto

lemma store_same [simp]: "st\<lparr>announcements_collection := announcements_collection st\<rparr> = st"
  by simp

lemma update_unknown_id:
  assumes "checked_dates e st p u = Inr (s, d)" "ObjectId i = Some announcement_object_id"
    and "find_one (Field ''_id'' (Eq (PObjectId announcement_object_id)))
           (announcements_collection st) = None"
    and "raises e AnnouncementsUpdateOne = None"
  shows "update_announcement e st i p u = (Inl (HTTPException 404 ''Announcement not found''), st)"
proof -
  from assms(3) have "\<not> list_ex (matches (Field ''_id'' (Eq (PObjectId announcement_object_id))))
      (announcements_collection st)"
    by (simp add: find_one_None)
  then have "update_body e st announcement_object_id ups =
      (Inl (HTTPException 404 ''Announcement not found''), st)" for ups
    using assms(4) by (simp add: update_body_def store_call_def update_one_no_match)
  with assms(1,2) show ?thesis
    by (simp add: update_announcement_def except_HTTPException_raise_def)
qed

lemma delete_unknown_id:
  assumes "require_teacher e st u = Inr t" "ObjectId i = Some announcement_object_id"
    and "find_one (Field ''_id'' (Eq (PObjectId announcement_object_id)))
           (announcements_collection st) = None"
    and "raises e AnnouncementsFindOne = None"
  shows "delete_announcement e st i u = (Inl (HTTPException 404 ''Announcement not found''), st)"
  using assms
  by (simp add: delete_announcement_def delete_body_def store_call_def
      except_HTTPException_raise_def)

text \<open>
  Claim C5.  For an authenticated teacher, a payload that passes the date checks and a
  well-formed id that no announcement has, \<open>update_announcement\<close> fails with status 404,
  and so does \<open>delete_announcement\<close>; the store is unchanged in both cases.  (The store
  call itself is taken not to raise.)
\<close>

theorem unknown_id_not_found:
  assumes "require_teacher e st u = Inr t"
    and "ObjectId i = Some announcement_object_id"
    and "find_one (Field ''_id'' (Eq (PObjectId announcement_object_id)))
           (announcements_collection st) = None"
  shows "(parse_date (start_date p) ''start_date'' = Inr s \<and>
          parse_date (end_date p) ''end_date'' = Inr (Some d) \<and>
          validate_date_range s d = Inr () \<and> raises e AnnouncementsUpdateOne = None \<longrightarrow>
            update_announcement e st i p u =
              (Inl (HTTPException 404 ''Announcement not found''), st)) \<and>
         (raises e AnnouncementsFindOne = None \<longrightarrow>
            delete_announcement e st i u =
              (Inl (HTTPException 404 ''Announcement not found''), st))"
proof (intro conjI impI)
  assume a: "parse_date (start_date p) ''start_date'' = Inr s \<and>
          parse_date (end_date p) ''end_date'' = Inr (Some d) \<and>
          validate_date_range s d = Inr () \<and> raises e AnnouncementsUpdateOne = None"
  with assms(1) have c: "checked_dates e st p u = Inr (s, d)"
    by (simp add: checked_dates_def)
  from a update_unknown_id [OF c assms(2,3)]
  show "update_announcement e st i p u =
              (Inl (HTTPException 404 ''Announcement not found''), st)"
    by simp
next
  assume "raises e AnnouncementsFindOne = None"
  then show "delete_announcement e st i u =
              (Inl (HTTPException 404 ''Announcement not found''), st)"
    by (rule delete_unknown_id [OF assms])
qed


theorem unknown_id_not_found_witness:
  "require_teacher example_env example_store (Some ''mrodriguez'') =
     Inr [(''_id'', PStr ''mrodriguez''), (''display_name'', PStr ''Ms. Rodriguez'')] \<and>
   ObjectId ''507F1F77BCF86CD799439099'' = Some ''507f1f77bcf86cd799439099'' \<and>
   find_one (Field ''_id'' (Eq (PObjectId ''507f1f77bcf86cd799439099'')))
     (announcements_collection example_store) = None \<and>
   parse_date (start_date example_payload) ''start_date'' = Inr None \<and>
   parse_date (end_date example_payload) ''end_date'' =
     Inr (Some \<lparr>year = 2024, month = 5, day = 10\<rparr>) \<and>
   validate_date_range None \<lparr>year = 2024, month = 5, day = 10\<rparr> = Inr () \<and>
   raises example_env AnnouncementsUpdateOne = None \<and>
   raises example_env AnnouncementsFindOne = None \<and>
   update_announcement example_env example_store ''507F1F77BCF86CD799439099'' example_payload
       (Some ''mrodriguez'') =
     (Inl (HTTPException 404 ''Announcement not found''), example_store) \<and>
   delete_announcement example_env example_store ''507F1F77BCF86CD799439099'' (Some ''mrodriguez'') =
     (Inl (HTTPException 404 ''Announcement not found''), example_store)"
proof -
  have t: "require_teacher example_env example_store (Some ''mrodriguez'') =
     Inr [(''_id'', PStr ''mrodriguez''), (''display_name'', PStr ''Ms. Rodriguez'')]"
    by (simp add: eval_store)
  have i: "ObjectId ''507F1F77BCF86CD799439099'' = Some ''507f1f77bcf86cd799439099''"
    by (simp add: ObjectId_def Py_ISSPACE_def is_hex_def lower_hex_def char_of_eq_iff)
  have f: "find_one (Field ''_id'' (Eq (PObjectId ''507f1f77bcf86cd799439099'')))
     (announcements_collection example_store) = None"
    by (simp add: eval_store)
  have h: "parse_date (start_date example_payload) ''start_date'' = Inr None \<and>
    parse_date (end_date example_payload) ''end_date'' =
      Inr (Some \<lparr>year = 2024, month = 5, day = 10\<rparr>) \<and>
    validate_date_range None \<lparr>year = 2024, month = 5, day = 10\<rparr> = Inr () \<and>
    raises example_env AnnouncementsUpdateOne = None"
    by (simp add: eval_date eval_store)
  have r: "raises example_env AnnouncementsFindOne = None"
    by (simp add: example_env_def)
  from unknown_id_not_found [OF t i f, of example_payload None "\<lparr>year = 2024, month = 5, day = 10\<rparr>"]
    t i f h r
  show ?thesis by simp
qed

lemma find_one_nonempty: "find_one (Field k (Eq (PStr name))) coll = Some t \<Longrightarrow> t \<noteq> []"
  by (auto simp: find_one_def find_Some_iff)

subsection \<open>Authentication\<close>

text \<open>
  Claim C6.  When the teacher identifier is missing, empty, or not the \<open>_id\<close> of a teacher
  record, \<open>list_announcements\<close>, \<open>create_announcement\<close>, \<open>update_announcement\<close> and
  \<open>delete_announcement\<close> fail with status 401 and leave the store as it was.  Nothing is
  assumed of the announcements or of the calls to their collection, so the outcome is the
  same when every such call would raise: none is made.  The check is the lookup alone: a
  name that is found is accepted.
\<close>

theorem unknown_teacher_unauthorized:
  "(teacher_username = None \<or> teacher_username = Some [] \<or>
      (\<exists>name. teacher_username = Some name \<and> raises e TeachersFindOne = None \<and>
         find_one (Field ''_id'' (Eq (PStr name))) (teachers_collection st) = None) \<longrightarrow>
    (\<exists>detail.
       list_announcements e st teacher_username = Inl (HTTPException 401 detail) \<and>
       create_announcement e st p teacher_username = (Inl (HTTPException 401 detail), st) \<and>
       update_announcement e st i p teacher_username = (Inl (HTTPException 401 detail), st) \<and>
       delete_announcement e st i teacher_username = (Inl (HTTPException 401 detail), st))) \<and>
   (name \<noteq> [] \<and> raises e TeachersFindOne = None \<and>
      find_one (Field ''_id'' (Eq (PStr name))) (teachers_collection st) = Some t \<longrightarrow>
    require_teacher e st (Some name) = Inr t)"
proof (intro conjI impI)
  assume "teacher_username = None \<or> teacher_username = Some [] \<or>
      (\<exists>name. teacher_username = Some name \<and> raises e TeachersFindOne = None \<and>
         find_one (Field ''_id'' (Eq (PStr name))) (teachers_collection st) = None)"
  then have "\<exists>detail. require_teacher e st teacher_username = Inl (HTTPException 401 detail)"
    by (auto simp: require_teacher_def store_call_def)
  then show "\<exists>detail.
       list_announcements e st teacher_username = Inl (HTTPException 401 detail) \<and>
       create_announcement e st p teacher_username = (Inl (HTTPException 401 detail), st) \<and>
       update_announcement e st i p teacher_username = (Inl (HTTPException 401 detail), st) \<and>
       delete_announcement e st i teacher_username = (Inl (HTTPException 401 detail), st)"
    by (auto simp: list_announcements_def create_announcement_def update_announcement_def
        delete_announcement_def checked_dates_def)
next
  assume a: "name \<noteq> [] \<and> raises e TeachersFindOne = None \<and>
      find_one (Field ''_id'' (Eq (PStr name))) (teachers_collection st) = Some t"
  then have "t \<noteq> []" using find_one_nonempty by blast
  with a show "require_teacher e st (Some name) = Inr t"
    by (simp add: require_teacher_def store_call_def)
qed


theorem unknown_teacher_unauthorized_witness:
  "raises example_env TeachersFindOne = None \<and>
   find_one (Field ''_id'' (Eq (PStr ''nobody''))) (teachers_collection example_store) = None \<and>
   list_announcements example_env example_store (Some ''nobody'') =
     Inl (HTTPException 401 ''Invalid teacher credentials'') \<and>
   create_announcement example_env example_store example_payload (Some ''nobody'') =
     (Inl (HTTPException 401 ''Invalid teacher credentials''), example_store) \<and>
   update_announcement example_env example_store ''507f1f77bcf86cd799439011'' example_payload
       (Some ''nobody'') =
     (Inl (HTTPException 401 ''Invalid teacher credentials''), example_store) \<and>
   delete_announcement example_env example_store ''507f1f77bcf86cd799439011'' (Some ''nobody'') =
     (Inl (HTTPException 401 ''Invalid teacher credentials''), example_store) \<and>
   list_announcements example_env example_store None =
     Inl (HTTPException 401 ''Authentication required'') \<and>
   ''mrodriguez'' \<noteq> [] \<and>
   find_one (Field ''_id'' (Eq (PStr ''mrodriguez''))) (teachers_collection example_store) =
     Some [(''_id'', PStr ''mrodriguez''), (''display_name'', PStr ''Ms. Rodriguez'')] \<and>
   require_teacher example_env example_store (Some ''mrodriguez'') =
     Inr [(''_id'', PStr ''mrodriguez''), (''display_name'', PStr ''Ms. Rodriguez'')]"
proof -
  have r: "raises example_env TeachersFindOne = None" by (simp add: example_env_def)
  have f: "find_one (Field ''_id'' (Eq (PStr ''nobody''))) (teachers_collection example_store) = None"
    by (simp add: eval_store)
  have g: "find_one (Field ''_id'' (Eq (PStr ''mrodriguez''))) (teachers_collection example_store) =
     Some [(''_id'', PStr ''mrodriguez''), (''display_name'', PStr ''Ms. Rodriguez'')]"
    by (simp add: eval_store)
  have l: "list_announcements example_env example_store (Some ''nobody'') =
     Inl (HTTPException 401 ''Invalid teacher credentials'')"
    "list_announcements example_env example_store None =
     Inl (HTTPException 401 ''Authentication required'')"
    by (simp_all add: eval_store eval_handlers)
  from unknown_teacher_unauthorized [of "Some ''nobody''" example_env example_store
      example_payload "''507f1f77bcf86cd799439011''" "''mrodriguez''"
      "[(''_id'', PStr ''mrodriguez''), (''display_name'', PStr ''Ms. Rodriguez'')]"]
    r f g l
  show ?thesis by auto
qed

lemma map_of_set_fields:
  "k \<notin> fst ` set ups \<Longrightarrow> map_of (set_fields ups d) k = map_of d k"
  unfolding set_fields_def
  by (induction ups arbitrary: d) (auto simp: update_conv')

lemma update_one_cases:
  assumes "update_one q ups coll = (n, coll')"
  shows "(n = 0 \<and> coll' = coll) \<or>
         (n = 1 \<and> (\<exists>j < length coll. matches q (coll ! j) \<and>
                      coll' = coll[j := set_fields ups (coll ! j)]))"
  using assms
proof (induction coll arbitrary: n coll')
  case Nil
  then show ?case by simp
next
  case (Cons d ds)
  show ?case
  proof (cases "matches q d")
    case True
    with Cons.prems have "n = 1" "coll' = (d # ds)[0 := set_fields ups ((d # ds) ! 0)]"
      by simp_all
    with True show ?thesis by (intro disjI2 conjI exI [of _ 0]) simp_all
  next
    case False
    obtain m ds' where r: "update_one q ups ds = (m, ds')" by (cases "update_one q ups ds")
    with False Cons.prems have e: "n = m" "coll' = d # ds'" by simp_all
    from Cons.IH [OF r] show ?thesis
    proof
      assume "m = 0 \<and> ds' = ds"
      with e show ?thesis by simp
    next
      assume "m = 1 \<and> (\<exists>j<length ds. matches q (ds ! j) \<and> ds' = ds[j := set_fields ups (ds ! j)])"
      then obtain j where j: "m = 1" "j < length ds" "matches q (ds ! j)"
        "ds' = ds[j := set_fields ups (ds ! j)]" by blast
      with e show ?thesis
        by (intro disjI2 conjI exI [of _ "Suc j"]) simp_all
    qed
  qed
qed

lemma except_HTTPException_raise_Inr:
  "except_HTTPException_raise detail x = Inr r \<Longrightarrow> x = Inr r"
  by (auto simp: except_HTTPException_raise_def split: sum.splits exn.splits)

lemma update_body_Inr:
  assumes "update_body e st oid ups = (Inr r, st')"
  shows "\<exists>n coll'. update_one (Field ''_id'' (Eq (PObjectId oid))) ups (announcements_collection st) = (n, coll')
           \<and> n \<noteq> 0 \<and> st' = st\<lparr>announcements_collection := coll'\<rparr>"
proof -
  obtain n coll' where uo: "update_one (Field ''_id'' (Eq (PObjectId oid))) ups (announcements_collection st) = (n, coll')"
    by (cases "update_one (Field ''_id'' (Eq (PObjectId oid))) ups (announcements_collection st)")
  with assms have "n \<noteq> 0 \<and> st' = st\<lparr>announcements_collection := coll'\<rparr>"
    by (auto simp: update_body_def Let_def split: sum.splits option.splits if_splits)
  with uo show ?thesis by blast
qed

subsection \<open>The frame of an update\<close>

text \<open>
  Claim C10.  A successful \<open>update_announcement\<close> changes one record, one whose \<open>_id\<close>
  is the id given: every field of it other than \<open>title\<close>, \<open>message\<close>, \<open>start_date\<close>,
  \<open>end_date\<close> and \<open>updated_at\<close> keeps its value, in particular \<open>_id\<close> and
  \<open>created_at\<close>; every other record and the teachers are unchanged.
\<close>

theorem update_changes_content_fields_only:
  assumes "update_announcement e st i p u = (Inr r, st')"
  shows "\<exists>announcement_object_id j.
           ObjectId i = Some announcement_object_id \<and>
           j < length (announcements_collection st) \<and>
           map_of (announcements_collection st ! j) ''_id'' = Some (PObjectId announcement_object_id) \<and>
           length (announcements_collection st') = length (announcements_collection st) \<and>
           (\<forall>m < length (announcements_collection st). m \<noteq> j \<longrightarrow>
              announcements_collection st' ! m = announcements_collection st ! m) \<and>
           (\<forall>k. k \<notin> content_fields \<longrightarrow>
              map_of (announcements_collection st' ! j) k = map_of (announcements_collection st ! j) k) \<and>
           doc_get (announcements_collection st' ! j) ''_id'' = doc_get (announcements_collection st ! j) ''_id'' \<and>
           doc_get (announcements_collection st' ! j) ''created_at'' =
             doc_get (announcements_collection st ! j) ''created_at'' \<and>
           teachers_collection st' = teachers_collection st"
proof -
  from assms obtain s d where c: "checked_dates e st p u = Inr (s, d)"
    by (auto simp: update_announcement_def split: sum.splits)
  with assms obtain oid where oid: "ObjectId i = Some oid"
    by (auto simp: update_announcement_def split: option.splits)
  define ups where "ups =
     [(''title'', PStr (strip (title p))), (''message'', PStr (strip (message p))),
      (''start_date'', iso_or_None s), (''end_date'', PStr (isoformat d)),
      (''updated_at'', PDatetime (utcnow e 0))]"
  have keys: "fst ` set ups = content_fields" by (auto simp: ups_def content_fields_def)
  let ?q = "Field ''_id'' (Eq (PObjectId oid))"
  let ?coll = "announcements_collection st"
  from assms c oid have b: "\<exists>x. update_body e st oid ups = (x, st') \<and>
      except_HTTPException_raise ''Failed to update announcement'' x = Inr r"
    by (auto simp: update_announcement_def ups_def split: prod.splits)
  then obtain x where x: "update_body e st oid ups = (x, st')"
    "except_HTTPException_raise ''Failed to update announcement'' x = Inr r" by blast
  from x(1) except_HTTPException_raise_Inr [OF x(2)]
  have "update_body e st oid ups = (Inr r, st')" by simp
  from update_body_Inr [OF this] obtain n coll' where uo: "update_one ?q ups ?coll = (n, coll')"
    and n: "n \<noteq> 0" and st': "st' = st\<lparr>announcements_collection := coll'\<rparr>"
    by blast
  from update_one_cases [OF uo] n obtain j where j: "j < length ?coll" "matches ?q (?coll ! j)"
    "coll' = ?coll[j := set_fields ups (?coll ! j)]" by auto
  from j(2) have id: "map_of (?coll ! j) ''_id'' = Some (PObjectId oid)" by simp
  have frame: "map_of (set_fields ups (?coll ! j)) k = map_of (?coll ! j) k" if "k \<notin> content_fields" for k
    using that keys by (intro map_of_set_fields) simp
  have "''_id'' \<notin> content_fields" "''created_at'' \<notin> content_fields"
    by (simp_all add: content_fields_def)
  then have g: "doc_get (set_fields ups (?coll ! j)) ''_id'' = doc_get (?coll ! j) ''_id''"
    "doc_get (set_fields ups (?coll ! j)) ''created_at'' = doc_get (?coll ! j) ''created_at''"
    by (simp_all add: doc_get_def frame)
  show ?thesis
    using oid j(1) id st' j(3) frame g
    by (intro exI [of _ oid] exI [of _ j]) simp
qed

theorem update_changes_content_fields_only_witness:
  "update_announcement example_env example_store ''507f1f77bcf86cd799439011''
       \<lparr>title = '' Exam moved '', message = ''Now on Monday'', start_date = Some (unicode_of ''2024-05-02''),
        end_date = Some (unicode_of ''2024-05-13'')\<rparr> (Some ''mrodriguez'') =
     (Inr [(''id'', PStr ''507f1f77bcf86cd799439011''),
           (''title'', PStr ''Exam moved''), (''message'', PStr ''Now on Monday''),
           (''start_date'', PStr ''2024-05-02''), (''end_date'', PStr ''2024-05-13''),
           (''created_at'', PDatetime 10), (''updated_at'', PDatetime 1000)],
      example_store\<lparr>announcements_collection :=
        [[(''_id'', PObjectId ''507f1f77bcf86cd799439011''),
          (''title'', PStr ''Exam moved''), (''message'', PStr ''Now on Monday''),
          (''start_date'', PStr ''2024-05-02''), (''end_date'', PStr ''2024-05-13''),
          (''created_at'', PDatetime 10), (''updated_at'', PDatetime 1000)],
         fair_doc]\<rparr>) \<and>
   ObjectId ''507f1f77bcf86cd799439011'' = Some ''507f1f77bcf86cd799439011'' \<and>
   map_of (announcements_collection example_store ! 0) ''_id'' =
     Some (PObjectId ''507f1f77bcf86cd799439011'') \<and>
   announcements_collection example_store ! 1 = fair_doc"
proof -
  have u: "update_announcement example_env example_store ''507f1f77bcf86cd799439011''
       \<lparr>title = '' Exam moved '', message = ''Now on Monday'', start_date = Some (unicode_of ''2024-05-02''),
        end_date = Some (unicode_of ''2024-05-13'')\<rparr> (Some ''mrodriguez'') =
     (Inr [(''id'', PStr ''507f1f77bcf86cd799439011''),
           (''title'', PStr ''Exam moved''), (''message'', PStr ''Now on Monday''),
           (''start_date'', PStr ''2024-05-02''), (''end_date'', PStr ''2024-05-13''),
           (''created_at'', PDatetime 10), (''updated_at'', PDatetime 1000)],
      example_store\<lparr>announcements_collection :=
        [[(''_id'', PObjectId ''507f1f77bcf86cd799439011''),
          (''title'', PStr ''Exam moved''), (''message'', PStr ''Now on Monday''),
          (''start_date'', PStr ''2024-05-02''), (''end_date'', PStr ''2024-05-13''),
          (''created_at'', PDatetime 10), (''updated_at'', PDatetime 1000)],
         fair_doc]\<rparr>)"
    by (simp add: eval_date eval_store eval_handlers)
  have i: "ObjectId ''507f1f77bcf86cd799439011'' = Some ''507f1f77bcf86cd799439011''"
    by (simp add: ObjectId_def Py_ISSPACE_def is_hex_def lower_hex_def char_of_eq_iff)
  have m: "map_of (announcements_collection example_store ! 0) ''_id'' =
     Some (PObjectId ''507f1f77bcf86cd799439011'')"
    "announcements_collection example_store ! 1 = fair_doc"
    by (simp_all add: example_store_def exam_doc_def)
  from update_changes_content_fields_only [OF u] u i m show ?thesis by simp
qed

subsection \<open>Stored titles and messages\<close>

text \<open>
  Claim C7 says that every record stored by a create or an update has a title of 1 to
  80 characters.  The field declarations bound the title of the payload, and the handlers
  store \<open>title.strip()\<close>: a title of three spaces passes the bound and is stored as the
  empty string.
\<close>

theorem blank_title_stored_empty:
  "payload_ok (example_payload\<lparr>title := ''   ''\<rparr>) \<and>
   create_announcement example_env example_store (example_payload\<lparr>title := ''   ''\<rparr>)
       (Some ''mrodriguez'') =
     (Inr [(''id'', PStr ''507f1f77bcf86cd799439013''),
           (''title'', PStr []), (''message'', PStr ''Midterm Friday''),
           (''start_date'', PNone), (''end_date'', PStr ''2024-05-10''),
           (''created_at'', PDatetime 1000), (''updated_at'', PDatetime 1001)],
      example_store\<lparr>announcements_collection :=
        [exam_doc, fair_doc,
         [(''_id'', PObjectId ''507f1f77bcf86cd799439013''),
          (''title'', PStr []), (''message'', PStr ''Midterm Friday''),
          (''start_date'', PNone), (''end_date'', PStr ''2024-05-10''),
          (''created_at'', PDatetime 1000), (''updated_at'', PDatetime 1001)]]\<rparr>) \<and>
   length (strip (title (example_payload\<lparr>title := ''   ''\<rparr>))) = 0"
  by (simp add: eval_date eval_store eval_handlers)

subsection \<open>Exceptions from the store\<close>

lemma except_not_Error:
  "except_Exception detail r \<noteq> Inl (Error text)"
  "except_HTTPException_raise detail r \<noteq> Inl (Error text)"
  by (auto simp: except_Exception_def except_HTTPException_raise_def split: sum.splits exn.splits)

lemma require_teacher_Error:
  "require_teacher e st u = Inl (Error text) \<Longrightarrow> raises e TeachersFindOne = Some text"
  by (auto simp: require_teacher_def store_call_def split: option.splits if_splits)

lemma checked_dates_Error:
  "checked_dates e st p u = Inl (Error text) \<Longrightarrow> raises e TeachersFindOne = Some text"
  by (auto simp: checked_dates_def validate_date_range_def
      split: sum.splits option.splits if_splits dest: require_teacher_Error parse_date_status)

lemma get_active_not_Error: "get_active_announcements e st \<noteq> Inl (Error text)"
  by (simp add: get_active_announcements_def Let_def except_not_Error)

lemma list_Error:
  "list_announcements e st u = Inl (Error text) \<Longrightarrow> raises e TeachersFindOne = Some text"
  by (auto simp: list_announcements_def except_not_Error split: sum.splits
      dest: require_teacher_Error)

lemma create_Error:
  "fst (create_announcement e st p u) = Inl (Error text) \<Longrightarrow> raises e TeachersFindOne = Some text"
  by (auto simp: create_announcement_def except_Exception_def Let_def split: sum.splits prod.splits
      dest: checked_dates_Error)

lemma update_Error:
  "fst (update_announcement e st i p u) = Inl (Error text) \<Longrightarrow> raises e TeachersFindOne = Some text"
  by (auto simp: update_announcement_def except_not_Error Let_def
      split: sum.splits prod.splits option.splits dest: checked_dates_Error)

lemma delete_Error:
  "fst (delete_announcement e st i u) = Inl (Error text) \<Longrightarrow> raises e TeachersFindOne = Some text"
  by (auto simp: delete_announcement_def except_not_Error
      split: sum.splits prod.splits option.splits dest: require_teacher_Error)

lemma find_one_Some_ex: "find_one q coll = Some d \<Longrightarrow> list_ex (matches q) coll"
  by (auto simp: find_one_def find_Some_iff list_ex_iff)

lemma update_one_match: "list_ex (matches q) coll \<Longrightarrow> fst (update_one q ups coll) = 1"
  by (induction coll) (auto split: prod.splits)

lemma update_find_one_raises:
  assumes "checked_dates e st p u = Inr sd" "ObjectId i = Some announcement_object_id"
    and "raises e AnnouncementsUpdateOne = None"
    and "find_one (Field ''_id'' (Eq (PObjectId announcement_object_id)))
           (announcements_collection st) = Some doc"
    and "raises e AnnouncementsFindOne = Some text"
  shows "fst (update_announcement e st i p u) =
           Inl (HTTPException 500 ''Failed to update announcement'')"
proof -
  have "fst (update_body e st announcement_object_id ups) = Inl (Error text)" for ups
  proof -
    obtain n coll where uo: "update_one (Field ''_id'' (Eq (PObjectId announcement_object_id))) ups
        (announcements_collection st) = (n, coll)"
      by (cases "update_one (Field ''_id'' (Eq (PObjectId announcement_object_id))) ups
        (announcements_collection st)")
    from update_one_match [OF find_one_Some_ex [OF assms(4)], of ups] uo have "n = 1" by simp
    with uo assms(3,5) show ?thesis
      by (simp add: update_body_def store_call_def)
  qed
  note b = this
  have "fst (case update_body e st announcement_object_id ups of
      (r, st') \<Rightarrow> (except_HTTPException_raise ''Failed to update announcement'' r, st')) =
      Inl (HTTPException 500 ''Failed to update announcement'')" for ups
  proof -
    obtain r st' where u: "update_body e st announcement_object_id ups = (r, st')"
      by (cases "update_body e st announcement_object_id ups")
    with b [of ups] have "r = Inl (Error text)" by simp
    with u show ?thesis by (simp add: except_HTTPException_raise_def)
  qed
  with assms(1,2) show ?thesis
    by (cases sd) (simp add: update_announcement_def)
qed

lemma delete_delete_one_raises:
  assumes "require_teacher e st u = Inr t" "ObjectId i = Some announcement_object_id"
    and "raises e AnnouncementsFindOne = None"
    and "find_one (Field ''_id'' (Eq (PObjectId announcement_object_id)))
           (announcements_collection st) = Some doc"
    and "raises e AnnouncementsDeleteOne = Some text"
  shows "delete_announcement e st i u =
           (Inl (HTTPException 500 ''Failed to delete announcement''), st)"
proof -
  from assms(4) have "doc \<noteq> []" by (auto simp: find_one_def find_Some_iff)
  with assms show ?thesis
    by (simp add: delete_announcement_def delete_body_def store_call_def
        except_HTTPException_raise_def)
qed

lemma create_duplicate_id:
  assumes "checked_dates e st p u = Inr sd" "raises e AnnouncementsInsertOne = None"
    and "find_one (Field ''_id'' (Eq (PObjectId (new_oid e)))) (announcements_collection st) = Some doc"
  shows "create_announcement e st p u =
           (Inl (HTTPException 500 ''Failed to create announcement''), st)"
proof -
  from find_one_Some_ex [OF assms(3)] assms(1,2) show ?thesis
    by (cases sd) (simp add: create_announcement_def insert_one_def store_call_def
        except_Exception_def)
qed

lemma require_teacher_code:
  "require_teacher e st u = Inl (HTTPException code detail) \<Longrightarrow> code = 401"
  by (auto simp: require_teacher_def store_call_def split: option.splits if_splits)

lemma checked_dates_code:
  "checked_dates e st p u = Inl (HTTPException code detail) \<Longrightarrow> code = 401 \<or> code = 400"
  by (auto simp: checked_dates_def validate_date_range_def
      split: sum.splits option.splits if_splits dest: require_teacher_code parse_date_status)

lemma except_Exception_500:
  "except_Exception fixed r = Inl (HTTPException 500 detail) \<Longrightarrow> detail = fixed"
  by (auto simp: except_Exception_def split: sum.splits)

lemma except_HTTPException_raise_500:
  "except_HTTPException_raise fixed r = Inl (HTTPException 500 detail) \<Longrightarrow>
     detail = fixed \<or> r = Inl (HTTPException 500 detail)"
  by (auto simp: except_HTTPException_raise_def split: sum.splits exn.splits)

lemma update_body_code:
  "update_body e st announcement_object_id ups = (Inl (HTTPException code detail), st') \<Longrightarrow> code = 404"
  by (auto simp: update_body_def store_call_def Let_def
      split: option.splits prod.splits if_splits)

lemma delete_body_code:
  "delete_body e st announcement_object_id = (Inl (HTTPException code detail), st') \<Longrightarrow> code = 404"
  by (auto simp: delete_body_def store_call_def split: option.splits if_splits)

lemma get_active_500:
  "get_active_announcements e st = Inl (HTTPException 500 detail) \<Longrightarrow>
     detail = ''Failed to load announcements''"
  by (auto simp: get_active_announcements_def Let_def dest: except_Exception_500)

lemma list_500:
  "list_announcements e st u = Inl (HTTPException 500 detail) \<Longrightarrow>
     detail = ''Failed to load announcements''"
  by (auto simp: list_announcements_def split: sum.splits
      dest: except_Exception_500 require_teacher_code)

lemma create_500:
  assumes "fst (create_announcement e st p u) = Inl (HTTPException 500 detail)"
  shows "detail = ''Failed to create announcement''"
proof (cases "checked_dates e st p u")
  case (Inl x)
  with assms checked_dates_code [of e st p u 500 detail] show ?thesis
    by (simp add: create_announcement_def)
next
  case (Inr sd)
  with assms show ?thesis
    by (cases sd) (auto simp: create_announcement_def Let_def split: sum.splits
        dest: except_Exception_500)
qed

lemma update_500:
  assumes "fst (update_announcement e st i p u) = Inl (HTTPException 500 detail)"
  shows "detail = ''Failed to update announcement''"
proof (cases "checked_dates e st p u")
  case (Inl x)
  with assms checked_dates_code [of e st p u 500 detail] show ?thesis
    by (simp add: update_announcement_def)
next
  case (Inr sd)
  obtain s d where sd: "sd = (s, d)" by (cases sd)
  show ?thesis
  proof (cases "ObjectId i")
    case None
    with assms Inr sd show ?thesis by (simp add: update_announcement_def)
  next
    case (Some oid)
    with assms Inr sd obtain ups r st' where b: "update_body e st oid ups = (r, st')"
      and x: "except_HTTPException_raise ''Failed to update announcement'' r =
        Inl (HTTPException 500 detail)"
      by (auto simp: update_announcement_def split: prod.splits)
    from except_HTTPException_raise_500 [OF x] show ?thesis
    proof
      assume "r = Inl (HTTPException 500 detail)"
      with b update_body_code [of e st oid ups 500 detail st'] show ?thesis by simp
    qed
  qed
qed

lemma delete_500:
  assumes "fst (delete_announcement e st i u) = Inl (HTTPException 500 detail)"
  shows "detail = ''Failed to delete announcement''"
proof (cases "require_teacher e st u")
  case (Inl x)
  with assms require_teacher_code [of e st u 500 detail] show ?thesis
    by (simp add: delete_announcement_def)
next
  case (Inr t)
  show ?thesis
  proof (cases "ObjectId i")
    case None
    with assms Inr show ?thesis by (simp add: delete_announcement_def)
  next
    case (Some oid)
    with assms Inr obtain r st' where b: "delete_body e st oid = (r, st')"
      and x: "except_HTTPException_raise ''Failed to delete announcement'' r =
        Inl (HTTPException 500 detail)"
      by (auto simp: delete_announcement_def split: prod.splits)
    from except_HTTPException_raise_500 [OF x] show ?thesis
    proof
      assume "r = Inl (HTTPException 500 detail)"
      with b delete_body_code [of e st oid 500 detail st'] show ?thesis by simp
    qed
  qed
qed

text \<open>
  Claim C9, as the code has it.  An exception raised by any call to the announcements
  collection (the find of the two lists, the insert of a create, also when the store
  refuses a duplicate id, the update and the find of an update, the find and the delete
  of a delete) is caught and becomes status 500 with the fixed text of the handler, not
  the text of the exception; a status 500 never carries another text, and no other
  exception leaves a handler as long as the teacher lookup does not raise.  An error
  that already has a status (401 from the teacher check, 400 from the date checks and
  from an id that is not one, 404 from inside the \<open>try\<close>) leaves the handler as it was
  raised.
\<close>

theorem announcement_store_errors_converted:
  "(raises e AnnouncementsFind = Some msg \<longrightarrow>
      get_active_announcements e st = Inl (HTTPException 500 ''Failed to load announcements'')) \<and>
   (require_teacher e st u = Inr t \<and> raises e AnnouncementsFind = Some msg \<longrightarrow>
      list_announcements e st u = Inl (HTTPException 500 ''Failed to load announcements'')) \<and>
   (checked_dates e st p u = Inr sd \<and> raises e AnnouncementsInsertOne = Some msg \<longrightarrow>
      create_announcement e st p u =
        (Inl (HTTPException 500 ''Failed to create announcement''), st)) \<and>
   (checked_dates e st p u = Inr sd \<and> ObjectId i = Some announcement_object_id \<and>
    raises e AnnouncementsUpdateOne = Some msg \<longrightarrow>
      update_announcement e st i p u =
        (Inl (HTTPException 500 ''Failed to update announcement''), st)) \<and>
   (require_teacher e st u = Inr t \<and> ObjectId i = Some announcement_object_id \<and>
    raises e AnnouncementsFindOne = Some msg \<longrightarrow>
      delete_announcement e st i u =
        (Inl (HTTPException 500 ''Failed to delete announcement''), st)) \<and>
   (raises e TeachersFindOne = None \<longrightarrow>
      get_active_announcements e st \<noteq> Inl (Error msg) \<and>
      list_announcements e st u \<noteq> Inl (Error msg) \<and>
      fst (create_announcement e st p u) \<noteq> Inl (Error msg) \<and>
      fst (update_announcement e st i p u) \<noteq> Inl (Error msg) \<and>
      fst (delete_announcement e st i u) \<noteq> Inl (Error msg)) \<and>
   (require_teacher e st u = Inl (HTTPException code detail) \<longrightarrow>
      list_announcements e st u = Inl (HTTPException code detail) \<and>
      create_announcement e st p u = (Inl (HTTPException code detail), st) \<and>
      update_announcement e st i p u = (Inl (HTTPException code detail), st) \<and>
      delete_announcement e st i u = (Inl (HTTPException code detail), st)) \<and>
   (checked_dates e st p u = Inl (HTTPException code detail) \<longrightarrow>
      create_announcement e st p u = (Inl (HTTPException code detail), st) \<and>
      update_announcement e st i p u = (Inl (HTTPException code detail), st)) \<and>
   (checked_dates e st p u = Inr sd \<and> ObjectId i = Some announcement_object_id \<and>
    raises e AnnouncementsUpdateOne = None \<and>
    find_one (Field ''_id'' (Eq (PObjectId announcement_object_id)))
      (announcements_collection st) = None \<longrightarrow>
      update_announcement e st i p u = (Inl (HTTPException 404 ''Announcement not found''), st)) \<and>
   (require_teacher e st u = Inr t \<and> ObjectId i = Some announcement_object_id \<and>
    raises e AnnouncementsFindOne = None \<and>
    find_one (Field ''_id'' (Eq (PObjectId announcement_object_id)))
      (announcements_collection st) = None \<longrightarrow>
      delete_announcement e st i u = (Inl (HTTPException 404 ''Announcement not found''), st)) \<and>
   (checked_dates e st p u = Inr sd \<and> ObjectId i = Some announcement_object_id \<and>
    raises e AnnouncementsUpdateOne = None \<and>
    find_one (Field ''_id'' (Eq (PObjectId announcement_object_id)))
      (announcements_collection st) = Some doc \<and>
    raises e AnnouncementsFindOne = Some msg \<longrightarrow>
      fst (update_announcement e st i p u) =
        Inl (HTTPException 500 ''Failed to update announcement'')) \<and>
   (require_teacher e st u = Inr t \<and> ObjectId i = Some announcement_object_id \<and>
    raises e AnnouncementsFindOne = None \<and>
    find_one (Field ''_id'' (Eq (PObjectId announcement_object_id)))
      (announcements_collection st) = Some doc \<and>
    raises e AnnouncementsDeleteOne = Some msg \<longrightarrow>
      delete_announcement e st i u =
        (Inl (HTTPException 500 ''Failed to delete announcement''), st)) \<and>
   (checked_dates e st p u = Inr sd \<and> raises e AnnouncementsInsertOne = None \<and>
    find_one (Field ''_id'' (Eq (PObjectId (new_oid e)))) (announcements_collection st) =
      Some doc \<longrightarrow>
      create_announcement e st p u =
        (Inl (HTTPException 500 ''Failed to create announcement''), st)) \<and>
   (checked_dates e st p u = Inr sd \<and> ObjectId i = None \<longrightarrow>
      update_announcement e st i p u = (Inl (HTTPException 400 ''Invalid announcement id''), st)) \<and>
   (require_teacher e st u = Inr t \<and> ObjectId i = None \<longrightarrow>
      delete_announcement e st i u = (Inl (HTTPException 400 ''Invalid announcement id''), st)) \<and>
   (get_active_announcements e st = Inl (HTTPException 500 detail) \<longrightarrow>
      detail = ''Failed to load announcements'') \<and>
   (list_announcements e st u = Inl (HTTPException 500 detail) \<longrightarrow>
      detail = ''Failed to load announcements'') \<and>
   (fst (create_announcement e st p u) = Inl (HTTPException 500 detail) \<longrightarrow>
      detail = ''Failed to create announcement'') \<and>
   (fst (update_announcement e st i p u) = Inl (HTTPException 500 detail) \<longrightarrow>
      detail = ''Failed to update announcement'') \<and>
   (fst (delete_announcement e st i u) = Inl (HTTPException 500 detail) \<longrightarrow>
      detail = ''Failed to delete announcement'')"
proof (intro conjI impI)
  assume "raises e AnnouncementsFind = Some msg"
  then show "get_active_announcements e st = Inl (HTTPException 500 ''Failed to load announcements'')"
    by (simp add: get_active_announcements_def store_call_def except_Exception_def)
next
  assume "require_teacher e st u = Inr t \<and> raises e AnnouncementsFind = Some msg"
  then show "list_announcements e st u = Inl (HTTPException 500 ''Failed to load announcements'')"
    by (simp add: list_announcements_def store_call_def except_Exception_def)
next
  assume "checked_dates e st p u = Inr sd \<and> raises e AnnouncementsInsertOne = Some msg"
  then show "create_announcement e st p u =
        (Inl (HTTPException 500 ''Failed to create announcement''), st)"
    by (cases sd) (simp add: create_announcement_def store_call_def except_Exception_def)
next
  assume "checked_dates e st p u = Inr sd \<and> ObjectId i = Some announcement_object_id \<and>
    raises e AnnouncementsUpdateOne = Some msg"
  then show "update_announcement e st i p u =
        (Inl (HTTPException 500 ''Failed to update announcement''), st)"
    by (cases sd) (simp add: update_announcement_def update_body_def store_call_def
        except_HTTPException_raise_def)
next
  assume "require_teacher e st u = Inr t \<and> ObjectId i = Some announcement_object_id \<and>
    raises e AnnouncementsFindOne = Some msg"
  then show "delete_announcement e st i u =
        (Inl (HTTPException 500 ''Failed to delete announcement''), st)"
    by (simp add: delete_announcement_def delete_body_def store_call_def
        except_HTTPException_raise_def)
next
  show "get_active_announcements e st \<noteq> Inl (Error msg)" by (rule get_active_not_Error)
next
  assume "raises e TeachersFindOne = None"
  then show "list_announcements e st u \<noteq> Inl (Error msg)" using list_Error by fastforce
next
  assume "raises e TeachersFindOne = None"
  then show "fst (create_announcement e st p u) \<noteq> Inl (Error msg)" using create_Error by fastforce
next
  assume "raises e TeachersFindOne = None"
  then show "fst (update_announcement e st i p u) \<noteq> Inl (Error msg)" using update_Error by fastforce
next
  assume "raises e TeachersFindOne = None"
  then show "fst (delete_announcement e st i u) \<noteq> Inl (Error msg)" using delete_Error by fastforce
next
  assume a: "require_teacher e st u = Inl (HTTPException code detail)"
  then show "list_announcements e st u = Inl (HTTPException code detail)"
    by (simp add: list_announcements_def)
  from a show "create_announcement e st p u = (Inl (HTTPException code detail), st)"
    by (simp add: create_announcement_def checked_dates_def)
  from a show "update_announcement e st i p u = (Inl (HTTPException code detail), st)"
    by (simp add: update_announcement_def checked_dates_def)
  from a show "delete_announcement e st i u = (Inl (HTTPException code detail), st)"
    by (simp add: delete_announcement_def)
next
  assume a: "checked_dates e st p u = Inl (HTTPException code detail)"
  then show "create_announcement e st p u = (Inl (HTTPException code detail), st)"
    by (simp add: create_announcement_def)
  from a show "update_announcement e st i p u = (Inl (HTTPException code detail), st)"
    by (simp add: update_announcement_def)
next
  assume "checked_dates e st p u = Inr sd \<and> ObjectId i = Some announcement_object_id \<and>
    raises e AnnouncementsUpdateOne = None \<and>
    find_one (Field ''_id'' (Eq (PObjectId announcement_object_id)))
      (announcements_collection st) = None"
  then show "update_announcement e st i p u = (Inl (HTTPException 404 ''Announcement not found''), st)"
    using update_unknown_id [of e st p u "fst sd" "snd sd" i announcement_object_id] by simp
next
  assume "require_teacher e st u = Inr t \<and> ObjectId i = Some announcement_object_id \<and>
    raises e AnnouncementsFindOne = None \<and>
    find_one (Field ''_id'' (Eq (PObjectId announcement_object_id)))
      (announcements_collection st) = None"
  then show "delete_announcement e st i u = (Inl (HTTPException 404 ''Announcement not found''), st)"
    using delete_unknown_id [of e st u t i announcement_object_id] by simp
next
  assume "checked_dates e st p u = Inr sd \<and> ObjectId i = Some announcement_object_id \<and>
    raises e AnnouncementsUpdateOne = None \<and>
    find_one (Field ''_id'' (Eq (PObjectId announcement_object_id)))
      (announcements_collection st) = Some doc \<and>
    raises e AnnouncementsFindOne = Some msg"
  then show "fst (update_announcement e st i p u) =
        Inl (HTTPException 500 ''Failed to update announcement'')"
    using update_find_one_raises [of e st p u sd i announcement_object_id doc msg] by simp
next
  assume "require_teacher e st u = Inr t \<and> ObjectId i = Some announcement_object_id \<and>
    raises e AnnouncementsFindOne = None \<and>
    find_one (Field ''_id'' (Eq (PObjectId announcement_object_id)))
      (announcements_collection st) = Some doc \<and>
    raises e AnnouncementsDeleteOne = Some msg"
  then show "delete_announcement e st i u =
        (Inl (HTTPException 500 ''Failed to delete announcement''), st)"
    using delete_delete_one_raises [of e st u t i announcement_object_id doc msg] by simp
next
  assume "checked_dates e st p u = Inr sd \<and> raises e AnnouncementsInsertOne = None \<and>
    find_one (Field ''_id'' (Eq (PObjectId (new_oid e)))) (announcements_collection st) =
      Some doc"
  then show "create_announcement e st p u =
        (Inl (HTTPException 500 ''Failed to create announcement''), st)"
    using create_duplicate_id [of e st p u sd doc] by simp
next
  assume "checked_dates e st p u = Inr sd \<and> ObjectId i = None"
  then show "update_announcement e st i p u =
      (Inl (HTTPException 400 ''Invalid announcement id''), st)"
    by (cases sd) (simp add: update_announcement_def)
next
  assume "require_teacher e st u = Inr t \<and> ObjectId i = None"
  then show "delete_announcement e st i u =
      (Inl (HTTPException 400 ''Invalid announcement id''), st)"
    by (simp add: delete_announcement_def)
next
  assume "get_active_announcements e st = Inl (HTTPException 500 detail)"
  then show "detail = ''Failed to load announcements''" by (rule get_active_500)
next
  assume "list_announcements e st u = Inl (HTTPException 500 detail)"
  then show "detail = ''Failed to load announcements''" by (rule list_500)
next
  assume "fst (create_announcement e st p u) = Inl (HTTPException 500 detail)"
  then show "detail = ''Failed to create announcement''" by (rule create_500)
next
  assume "fst (update_announcement e st i p u) = Inl (HTTPException 500 detail)"
  then show "detail = ''Failed to update announcement''" by (rule update_500)
next
  assume "fst (delete_announcement e st i u) = Inl (HTTPException 500 detail)"
  then show "detail = ''Failed to delete announcement''" by (rule delete_500)
qed

theorem announcement_store_errors_converted_witness:
  "raises announcements_down_env AnnouncementsFind = Some ''connection refused'' \<and>
   raises announcements_down_env AnnouncementsInsertOne = Some ''connection refused'' \<and>
   raises announcements_down_env AnnouncementsUpdateOne = Some ''connection refused'' \<and>
   raises announcements_down_env AnnouncementsFindOne = Some ''connection refused'' \<and>
   require_teacher announcements_down_env example_store (Some ''mrodriguez'') =
     Inr [(''_id'', PStr ''mrodriguez''), (''display_name'', PStr ''Ms. Rodriguez'')] \<and>
   checked_dates announcements_down_env example_store example_payload (Some ''mrodriguez'') =
     Inr (None, \<lparr>year = 2024, month = 5, day = 10\<rparr>) \<and>
   ObjectId ''507f1f77bcf86cd799439011'' = Some ''507f1f77bcf86cd799439011'' \<and>
   get_active_announcements announcements_down_env example_store =
     Inl (HTTPException 500 ''Failed to load announcements'') \<and>
   list_announcements announcements_down_env example_store (Some ''mrodriguez'') =
     Inl (HTTPException 500 ''Failed to load announcements'') \<and>
   create_announcement announcements_down_env example_store example_payload (Some ''mrodriguez'') =
     (Inl (HTTPException 500 ''Failed to create announcement''), example_store) \<and>
   update_announcement announcements_down_env example_store ''507f1f77bcf86cd799439011''
       example_payload (Some ''mrodriguez'') =
     (Inl (HTTPException 500 ''Failed to update announcement''), example_store) \<and>
   delete_announcement announcements_down_env example_store ''507f1f77bcf86cd799439011''
       (Some ''mrodriguez'') =
     (Inl (HTTPException 500 ''Failed to delete announcement''), example_store) \<and>
   find_one (Field ''_id'' (Eq (PObjectId ''507f1f77bcf86cd799439011'')))
     (announcements_collection example_store) = Some exam_doc \<and>
   raises find_one_down_env AnnouncementsUpdateOne = None \<and>
   raises find_one_down_env AnnouncementsFindOne = Some ''connection reset'' \<and>
   fst (update_announcement find_one_down_env example_store ''507f1f77bcf86cd799439011''
          example_payload (Some ''mrodriguez'')) =
     Inl (HTTPException 500 ''Failed to update announcement'') \<and>
   raises delete_one_down_env AnnouncementsFindOne = None \<and>
   raises delete_one_down_env AnnouncementsDeleteOne = Some ''connection reset'' \<and>
   delete_announcement delete_one_down_env example_store ''507f1f77bcf86cd799439011''
       (Some ''mrodriguez'') =
     (Inl (HTTPException 500 ''Failed to delete announcement''), example_store) \<and>
   raises duplicate_id_env AnnouncementsInsertOne = None \<and>
   new_oid duplicate_id_env = ''507f1f77bcf86cd799439011'' \<and>
   create_announcement duplicate_id_env example_store example_payload (Some ''mrodriguez'') =
     (Inl (HTTPException 500 ''Failed to create announcement''), example_store) \<and>
   ObjectId ''not-an-id'' = None \<and>
   update_announcement example_env example_store ''not-an-id'' example_payload (Some ''mrodriguez'') =
     (Inl (HTTPException 400 ''Invalid announcement id''), example_store) \<and>
   delete_announcement example_env example_store ''not-an-id'' (Some ''mrodriguez'') =
     (Inl (HTTPException 400 ''Invalid announcement id''), example_store) \<and>
   raises announcements_down_env TeachersFindOne = None \<and>
   get_active_announcements announcements_down_env example_store \<noteq>
     Inl (Error ''connection refused'') \<and>
   list_announcements announcements_down_env example_store (Some ''mrodriguez'') \<noteq>
     Inl (Error ''connection refused'') \<and>
   fst (create_announcement announcements_down_env example_store example_payload
          (Some ''mrodriguez'')) \<noteq> Inl (Error ''connection refused'') \<and>
   fst (update_announcement announcements_down_env example_store ''507f1f77bcf86cd799439011''
          example_payload (Some ''mrodriguez'')) \<noteq> Inl (Error ''connection refused'') \<and>
   fst (delete_announcement announcements_down_env example_store ''507f1f77bcf86cd799439011''
          (Some ''mrodriguez'')) \<noteq> Inl (Error ''connection refused'') \<and>
   ObjectId ''507f1f77bcf86cd799439099'' = Some ''507f1f77bcf86cd799439099'' \<and>
   find_one (Field ''_id'' (Eq (PObjectId ''507f1f77bcf86cd799439099'')))
     (announcements_collection example_store) = None \<and>
   raises example_env AnnouncementsUpdateOne = None \<and>
   raises example_env AnnouncementsFindOne = None \<and>
   update_announcement example_env example_store ''507f1f77bcf86cd799439099'' example_payload
       (Some ''mrodriguez'') =
     (Inl (HTTPException 404 ''Announcement not found''), example_store) \<and>
   delete_announcement example_env example_store ''507f1f77bcf86cd799439099''
       (Some ''mrodriguez'') =
     (Inl (HTTPException 404 ''Announcement not found''), example_store) \<and>
   require_teacher example_env example_store (Some ''nobody'') =
     Inl (HTTPException 401 ''Invalid teacher credentials'') \<and>
   create_announcement example_env example_store example_payload (Some ''nobody'') =
     (Inl (HTTPException 401 ''Invalid teacher credentials''), example_store) \<and>
   checked_dates example_env example_store (example_payload\<lparr>end_date := Some (unicode_of ''2024/01/01'')\<rparr>)
       (Some ''mrodriguez'') =
     Inl (HTTPException 400 ''end_date must be in YYYY-MM-DD format'') \<and>
   update_announcement example_env example_store ''507f1f77bcf86cd799439011''
       (example_payload\<lparr>end_date := Some (unicode_of ''2024/01/01'')\<rparr>) (Some ''mrodriguez'') =
     (Inl (HTTPException 400 ''end_date must be in YYYY-MM-DD format''), example_store)"
proof -
  let ?e = announcements_down_env
  let ?t = "[(''_id'', PStr ''mrodriguez''), (''display_name'', PStr ''Ms. Rodriguez'')]"
  let ?p = "example_payload\<lparr>end_date := Some (unicode_of ''2024/01/01'')\<rparr>"
  let ?q = "Field ''_id'' (Eq (PObjectId ''507f1f77bcf86cd799439011''))"
  have r: "raises ?e AnnouncementsFind = Some ''connection refused''"
    "raises ?e AnnouncementsInsertOne = Some ''connection refused''"
    "raises ?e AnnouncementsUpdateOne = Some ''connection refused''"
    "raises ?e AnnouncementsFindOne = Some ''connection refused''"
    by (simp_all add: announcements_down_env_def example_env_def)
  have rf: "raises find_one_down_env AnnouncementsUpdateOne = None"
    "raises find_one_down_env AnnouncementsFindOne = Some ''connection reset''"
    by (simp_all add: find_one_down_env_def example_env_def)
  have rd: "raises delete_one_down_env AnnouncementsFindOne = None"
    "raises delete_one_down_env AnnouncementsDeleteOne = Some ''connection reset''"
    by (simp_all add: delete_one_down_env_def example_env_def)
  have ru: "raises duplicate_id_env AnnouncementsInsertOne = None"
    "new_oid duplicate_id_env = ''507f1f77bcf86cd799439011''"
    by (simp_all add: duplicate_id_env_def example_env_def)
  have t: "require_teacher e' example_store (Some ''mrodriguez'') = Inr ?t"
    if "raises e' TeachersFindOne = None" for e'
    using that by (simp add: eval_store)
  have c: "checked_dates e' example_store example_payload (Some ''mrodriguez'') =
     Inr (None, \<lparr>year = 2024, month = 5, day = 10\<rparr>)"
    if "raises e' TeachersFindOne = None" for e'
    using that by (simp add: eval_date eval_store)
  have te: "raises ?e TeachersFindOne = None" "raises find_one_down_env TeachersFindOne = None"
    "raises delete_one_down_env TeachersFindOne = None"
    "raises duplicate_id_env TeachersFindOne = None" "raises example_env TeachersFindOne = None"
    by (simp_all add: announcements_down_env_def find_one_down_env_def delete_one_down_env_def
        duplicate_id_env_def example_env_def)
  have i: "ObjectId ''507f1f77bcf86cd799439011'' = Some ''507f1f77bcf86cd799439011''"
    "ObjectId ''not-an-id'' = None"
    by (simp_all add: ObjectId_def Py_ISSPACE_def is_hex_def lower_hex_def char_of_eq_iff)
  have f: "find_one ?q (announcements_collection example_store) = Some exam_doc"
    by (simp add: eval_store)
  have n: "require_teacher example_env example_store (Some ''nobody'') =
     Inl (HTTPException 401 ''Invalid teacher credentials'')"
    by (simp add: eval_store)
  have d: "checked_dates example_env example_store ?p (Some ''mrodriguez'') =
     Inl (HTTPException 400 ''end_date must be in YYYY-MM-DD format'')"
    by (simp add: eval_date eval_store)
  have g1: "get_active_announcements ?e example_store =
      Inl (HTTPException 500 ''Failed to load announcements'')"
    using announcement_store_errors_converted [where e = "announcements_down_env" and msg = "''connection refused''" and st = example_store
      and u = "Some ''mrodriguez''" and t = "[(''_id'', PStr ''mrodriguez''), (''display_name'', PStr ''Ms. Rodriguez'')]"
      and p = "example_payload" and sd = "(None, \<lparr>year = 2024, month = 5, day = 10\<rparr>)"
      and i = "''507f1f77bcf86cd799439011''" and announcement_object_id = "''507f1f77bcf86cd799439011''" and code = 500 and detail = "''x''"
      and doc = exam_doc, THEN conjunct1] r
    by simp
  have g2: "list_announcements ?e example_store (Some ''mrodriguez'') =
      Inl (HTTPException 500 ''Failed to load announcements'')"
    using announcement_store_errors_converted [where e = "announcements_down_env" and msg = "''connection refused''" and st = example_store
      and u = "Some ''mrodriguez''" and t = "[(''_id'', PStr ''mrodriguez''), (''display_name'', PStr ''Ms. Rodriguez'')]"
      and p = "example_payload" and sd = "(None, \<lparr>year = 2024, month = 5, day = 10\<rparr>)"
      and i = "''507f1f77bcf86cd799439011''" and announcement_object_id = "''507f1f77bcf86cd799439011''" and code = 500 and detail = "''x''"
      and doc = exam_doc, THEN conjunct2, THEN conjunct1] r t [OF te(1)]
    by simp
  have g3: "create_announcement ?e example_store example_payload (Some ''mrodriguez'') =
      (Inl (HTTPException 500 ''Failed to create announcement''), example_store)"
    using announcement_store_errors_converted [where e = "announcements_down_env" and msg = "''connection refused''" and st = example_store
      and u = "Some ''mrodriguez''" and t = "[(''_id'', PStr ''mrodriguez''), (''display_name'', PStr ''Ms. Rodriguez'')]"
      and p = "example_payload" and sd = "(None, \<lparr>year = 2024, month = 5, day = 10\<rparr>)"
      and i = "''507f1f77bcf86cd799439011''" and announcement_object_id = "''507f1f77bcf86cd799439011''" and code = 500 and detail = "''x''"
      and doc = exam_doc, THEN conjunct2, THEN conjunct2, THEN conjunct1] r c [OF te(1)]
    by simp
  have g4: "update_announcement ?e example_store ''507f1f77bcf86cd799439011''
        example_payload (Some ''mrodriguez'') =
      (Inl (HTTPException 500 ''Failed to update announcement''), example_store)"
    using announcement_store_errors_converted [where e = "announcements_down_env" and msg = "''connection refused''" and st = example_store
      and u = "Some ''mrodriguez''" and t = "[(''_id'', PStr ''mrodriguez''), (''display_name'', PStr ''Ms. Rodriguez'')]"
      and p = "example_payload" and sd = "(None, \<lparr>year = 2024, month = 5, day = 10\<rparr>)"
      and i = "''507f1f77bcf86cd799439011''" and announcement_object_id = "''507f1f77bcf86cd799439011''" and code = 500 and detail = "''x''"
      and doc = exam_doc, THEN conjunct2, THEN conjunct2, THEN conjunct2, THEN conjunct1] r c [OF te(1)] i
    by simp
  have g5: "delete_announcement ?e example_store ''507f1f77bcf86cd799439011''
        (Some ''mrodriguez'') =
      (Inl (HTTPException 500 ''Failed to delete announcement''), example_store)"
    using announcement_store_errors_converted [where e = "announcements_down_env" and msg = "''connection refused''" and st = example_store
      and u = "Some ''mrodriguez''" and t = "[(''_id'', PStr ''mrodriguez''), (''display_name'', PStr ''Ms. Rodriguez'')]"
      and p = "example_payload" and sd = "(None, \<lparr>year = 2024, month = 5, day = 10\<rparr>)"
      and i = "''507f1f77bcf86cd799439011''" and announcement_object_id = "''507f1f77bcf86cd799439011''" and code = 500 and detail = "''x''"
      and doc = exam_doc, THEN conjunct2, THEN conjunct2, THEN conjunct2, THEN conjunct2, THEN conjunct1] r t [OF te(1)] i
    by simp
  have g11: "fst (update_announcement find_one_down_env example_store ''507f1f77bcf86cd799439011''
          example_payload (Some ''mrodriguez'')) =
      Inl (HTTPException 500 ''Failed to update announcement'')"
    using announcement_store_errors_converted [where e = "find_one_down_env" and msg = "''connection reset''" and st = example_store
      and u = "Some ''mrodriguez''" and t = "[(''_id'', PStr ''mrodriguez''), (''display_name'', PStr ''Ms. Rodriguez'')]"
      and p = "example_payload" and sd = "(None, \<lparr>year = 2024, month = 5, day = 10\<rparr>)"
      and i = "''507f1f77bcf86cd799439011''" and announcement_object_id = "''507f1f77bcf86cd799439011''" and code = 500 and detail = "''x''"
      and doc = exam_doc, THEN conjunct2, THEN conjunct2, THEN conjunct2, THEN conjunct2, THEN conjunct2, THEN conjunct2, THEN conjunct2, THEN conjunct2, THEN conjunct2, THEN conjunct2, THEN conjunct1] rf c [OF te(2)] i f
    by simp
  have g12: "delete_announcement delete_one_down_env example_store ''507f1f77bcf86cd799439011''
        (Some ''mrodriguez'') =
      (Inl (HTTPException 500 ''Failed to delete announcement''), example_store)"
    using announcement_store_errors_converted [where e = "delete_one_down_env" and msg = "''connection reset''" and st = example_store
      and u = "Some ''mrodriguez''" and t = "[(''_id'', PStr ''mrodriguez''), (''display_name'', PStr ''Ms. Rodriguez'')]"
      and p = "example_payload" and sd = "(None, \<lparr>year = 2024, month = 5, day = 10\<rparr>)"
      and i = "''507f1f77bcf86cd799439011''" and announcement_object_id = "''507f1f77bcf86cd799439011''" and code = 500 and detail = "''x''"
      and doc = exam_doc, THEN conjunct2, THEN conjunct2, THEN conjunct2, THEN conjunct2, THEN conjunct2, THEN conjunct2, THEN conjunct2, THEN conjunct2, THEN conjunct2, THEN conjunct2, THEN conjunct2, THEN conjunct1] rd t [OF te(3)] i f
    by simp
  have g13: "create_announcement duplicate_id_env example_store example_payload (Some ''mrodriguez'') =
      (Inl (HTTPException 500 ''Failed to create announcement''), example_store)"
    using announcement_store_errors_converted [where e = "duplicate_id_env" and msg = "''connection refused''" and st = example_store
      and u = "Some ''mrodriguez''" and t = "[(''_id'', PStr ''mrodriguez''), (''display_name'', PStr ''Ms. Rodriguez'')]"
      and p = "example_payload" and sd = "(None, \<lparr>year = 2024, month = 5, day = 10\<rparr>)"
      and i = "''507f1f77bcf86cd799439011''" and announcement_object_id = "''507f1f77bcf86cd799439011''" and code = 500 and detail = "''x''"
      and doc = exam_doc, THEN conjunct2, THEN conjunct2, THEN conjunct2, THEN conjunct2, THEN conjunct2, THEN conjunct2, THEN conjunct2, THEN conjunct2, THEN conjunct2, THEN conjunct2, THEN conjunct2, THEN conjunct2, THEN conjunct1] ru c [OF te(4)] f
    by simp
  have g14: "update_announcement example_env example_store ''not-an-id'' example_payload
        (Some ''mrodriguez'') =
      (Inl (HTTPException 400 ''Invalid announcement id''), example_store)"
    using announcement_store_errors_converted [where e = "example_env" and msg = "''connection refused''" and st = example_store
      and u = "Some ''mrodriguez''" and t = "[(''_id'', PStr ''mrodriguez''), (''display_name'', PStr ''Ms. Rodriguez'')]"
      and p = "example_payload" and sd = "(None, \<lparr>year = 2024, month = 5, day = 10\<rparr>)"
      and i = "''not-an-id''" and announcement_object_id = "''507f1f77bcf86cd799439011''" and code = 500 and detail = "''x''"
      and doc = exam_doc, THEN conjunct2, THEN conjunct2, THEN conjunct2, THEN conjunct2, THEN conjunct2, THEN conjunct2, THEN conjunct2, THEN conjunct2, THEN conjunct2, THEN conjunct2, THEN conjunct2, THEN conjunct2, THEN conjunct2, THEN conjunct1] c [OF te(5)] i
    by simp
  have g15: "delete_announcement example_env example_store ''not-an-id'' (Some ''mrodriguez'') =
      (Inl (HTTPException 400 ''Invalid announcement id''), example_store)"
    using announcement_store_errors_converted [where e = "example_env" and msg = "''connection refused''" and st = example_store
      and u = "Some ''mrodriguez''" and t = "[(''_id'', PStr ''mrodriguez''), (''display_name'', PStr ''Ms. Rodriguez'')]"
      and p = "example_payload" and sd = "(None, \<lparr>year = 2024, month = 5, day = 10\<rparr>)"
      and i = "''not-an-id''" and announcement_object_id = "''507f1f77bcf86cd799439011''" and code = 500 and detail = "''x''"
      and doc = exam_doc, THEN conjunct2, THEN conjunct2, THEN conjunct2, THEN conjunct2, THEN conjunct2, THEN conjunct2, THEN conjunct2, THEN conjunct2, THEN conjunct2, THEN conjunct2, THEN conjunct2, THEN conjunct2, THEN conjunct2, THEN conjunct2, THEN conjunct1] t [OF te(5)] i
    by simp
  have g7: "create_announcement example_env example_store example_payload (Some ''nobody'') =
      (Inl (HTTPException 401 ''Invalid teacher credentials''), example_store)"
    using announcement_store_errors_converted [where e = "example_env" and msg = "''connection refused''" and st = example_store
      and u = "Some ''nobody''" and t = "[(''_id'', PStr ''mrodriguez''), (''display_name'', PStr ''Ms. Rodriguez'')]"
      and p = "example_payload" and sd = "(None, \<lparr>year = 2024, month = 5, day = 10\<rparr>)"
      and i = "''507f1f77bcf86cd799439011''" and announcement_object_id = "''507f1f77bcf86cd799439011''" and code = 401 and detail = "''Invalid teacher credentials''"
      and doc = exam_doc, THEN conjunct2, THEN conjunct2, THEN conjunct2, THEN conjunct2, THEN conjunct2, THEN conjunct2, THEN conjunct1] n
    by simp
  have g8: "update_announcement example_env example_store ''507f1f77bcf86cd799439011'' ?p
        (Some ''mrodriguez'') =
      (Inl (HTTPException 400 ''end_date must be in YYYY-MM-DD format''), example_store)"
    using announcement_store_errors_converted [where e = "example_env" and msg = "''connection refused''" and st = example_store
      and u = "Some ''mrodriguez''" and t = "[(''_id'', PStr ''mrodriguez''), (''display_name'', PStr ''Ms. Rodriguez'')]"
      and p = "example_payload\<lparr>end_date := Some (unicode_of ''2024/01/01'')\<rparr>" and sd = "(None, \<lparr>year = 2024, month = 5, day = 10\<rparr>)"
      and i = "''507f1f77bcf86cd799439011''" and announcement_object_id = "''507f1f77bcf86cd799439011''" and code = 400 and detail = "''end_date must be in YYYY-MM-DD format''"
      and doc = exam_doc, THEN conjunct2, THEN conjunct2, THEN conjunct2, THEN conjunct2, THEN conjunct2, THEN conjunct2, THEN conjunct2, THEN conjunct1] d
    by simp
  have i9: "ObjectId ''507f1f77bcf86cd799439099'' = Some ''507f1f77bcf86cd799439099''"
    by (simp add: ObjectId_def Py_ISSPACE_def is_hex_def lower_hex_def char_of_eq_iff)
  have f9: "find_one (Field ''_id'' (Eq (PObjectId ''507f1f77bcf86cd799439099'')))
      (announcements_collection example_store) = None"
    by (simp add: eval_store)
  have re: "raises example_env AnnouncementsUpdateOne = None"
    "raises example_env AnnouncementsFindOne = None"
    by (simp_all add: example_env_def)
  have g6: "get_active_announcements ?e example_store \<noteq> Inl (Error ''connection refused'') \<and>
      list_announcements ?e example_store (Some ''mrodriguez'') \<noteq>
        Inl (Error ''connection refused'') \<and>
      fst (create_announcement ?e example_store example_payload (Some ''mrodriguez'')) \<noteq>
        Inl (Error ''connection refused'') \<and>
      fst (update_announcement ?e example_store ''507f1f77bcf86cd799439011'' example_payload
             (Some ''mrodriguez'')) \<noteq> Inl (Error ''connection refused'') \<and>
      fst (delete_announcement ?e example_store ''507f1f77bcf86cd799439011''
             (Some ''mrodriguez'')) \<noteq> Inl (Error ''connection refused'')"
    using announcement_store_errors_converted [where e = "announcements_down_env" and msg = "''connection refused''" and st = example_store
      and u = "Some ''mrodriguez''" and t = "[(''_id'', PStr ''mrodriguez''), (''display_name'', PStr ''Ms. Rodriguez'')]"
      and p = "example_payload" and sd = "(None, \<lparr>year = 2024, month = 5, day = 10\<rparr>)"
      and i = "''507f1f77bcf86cd799439011''" and announcement_object_id = "''507f1f77bcf86cd799439011''" and code = 500 and detail = "''x''"
      and doc = exam_doc, THEN conjunct2, THEN conjunct2, THEN conjunct2, THEN conjunct2, THEN conjunct2, THEN conjunct1] te(1)
    by simp
  have g9: "update_announcement example_env example_store ''507f1f77bcf86cd799439099''
        example_payload (Some ''mrodriguez'') =
      (Inl (HTTPException 404 ''Announcement not found''), example_store)"
    using announcement_store_errors_converted [where e = "example_env" and msg = "''connection refused''" and st = example_store
      and u = "Some ''mrodriguez''" and t = "[(''_id'', PStr ''mrodriguez''), (''display_name'', PStr ''Ms. Rodriguez'')]"
      and p = "example_payload" and sd = "(None, \<lparr>year = 2024, month = 5, day = 10\<rparr>)"
      and i = "''507f1f77bcf86cd799439099''" and announcement_object_id = "''507f1f77bcf86cd799439099''" and code = 500 and detail = "''x''"
      and doc = exam_doc, THEN conjunct2, THEN conjunct2, THEN conjunct2, THEN conjunct2, THEN conjunct2, THEN conjunct2, THEN conjunct2, THEN conjunct2, THEN conjunct1] c [OF te(5)] i9 f9 re
    by simp
  have g10: "delete_announcement example_env example_store ''507f1f77bcf86cd799439099''
        (Some ''mrodriguez'') =
      (Inl (HTTPException 404 ''Announcement not found''), example_store)"
    using announcement_store_errors_converted [where e = "example_env" and msg = "''connection refused''" and st = example_store
      and u = "Some ''mrodriguez''" and t = "[(''_id'', PStr ''mrodriguez''), (''display_name'', PStr ''Ms. Rodriguez'')]"
      and p = "example_payload" and sd = "(None, \<lparr>year = 2024, month = 5, day = 10\<rparr>)"
      and i = "''507f1f77bcf86cd799439099''" and announcement_object_id = "''507f1f77bcf86cd799439099''" and code = 500 and detail = "''x''"
      and doc = exam_doc, THEN conjunct2, THEN conjunct2, THEN conjunct2, THEN conjunct2, THEN conjunct2, THEN conjunct2, THEN conjunct2, THEN conjunct2, THEN conjunct2, THEN conjunct1] t [OF te(5)] i9 f9 re
    by simp
  from r rf rd ru te(1) re t [OF te(1)] c [OF te(1)] i i9 f f9 n d g1 g2 g3 g4 g5 g6 g9 g10 g11
    g12 g13 g14 g15 g7 g8
  show ?thesis by simp
qed

text \<open>
  The claim as stated, that any exception of the store becomes status 500, fails for the
  teacher lookup: \<open>require_teacher\<close> calls the store outside every \<open>try\<close>, and the
  exception leaves \<open>list_announcements\<close> as it was raised, with its own text.
\<close>

theorem teacher_lookup_error_counterexample:
  "list_announcements teachers_down_env example_store (Some ''mrodriguez'') =
     Inl (Error ''connection refused'')"
  by (simp add: eval_store eval_handlers teachers_down_env_def)

subsection \<open>The order of the store and sorted finds\<close>

lemma bson_le_refl [simp]: "bson_le a a"
  by (cases a) simp_all

lemma bson_le_total: "bson_le a b \<or> bson_le b a"
  by (cases a; cases b) auto

lemma bson_le_trans: "bson_le a b \<Longrightarrow> bson_le b c \<Longrightarrow> bson_le a c"
  by (cases a; cases b; cases c) auto

lemma bson_le_antisym: "bson_le a b \<Longrightarrow> bson_le b a \<Longrightarrow> a = b"
  by (cases a; cases b) auto

lemma sort_le_total: "sort_le spec a b \<or> sort_le spec b a"
proof (induction spec)
  case Nil
  show ?case by simp
next
  case (Cons kd spec)
  obtain k dir where kd: "kd = (k, dir)" by (cases kd)
  show ?case
    using Cons bson_le_total [of "doc_get a k" "doc_get b k"]
    by (cases dir) (auto simp: kd)
qed

lemma sort_le_trans: "sort_le spec a b \<Longrightarrow> sort_le spec b c \<Longrightarrow> sort_le spec a c"
proof (induction spec)
  case Nil
  show ?case by simp
next
  case (Cons kd spec)
  obtain k dir where kd: "kd = (k, dir)" by (cases kd)
  let ?a = "doc_get a k" and ?b = "doc_get b k" and ?c = "doc_get c k"
  show ?case
  proof (cases "?a = ?b")
    case True
    show ?thesis
      using Cons by (cases dir; cases "?b = ?c") (simp_all add: kd True)
  next
    case ab: False
    show ?thesis
    proof (cases "?b = ?c")
      case True
      show ?thesis
        using Cons.prems ab by (cases dir) (simp_all add: kd True [symmetric])
    next
      case bc: False
      show ?thesis
      proof (cases dir)
        case ASCENDING
        with Cons.prems ab bc have l: "bson_le ?a ?b" "bson_le ?b ?c" by (simp_all add: kd)
        then have "bson_le ?a ?c" by (rule bson_le_trans)
        moreover have "?a \<noteq> ?c" using l ab bson_le_antisym by metis
        ultimately show ?thesis using ASCENDING by (simp add: kd)
      next
        case DESCENDING
        with Cons.prems ab bc have l: "bson_le ?b ?a" "bson_le ?c ?b" by (simp_all add: kd)
        then have "bson_le ?c ?a" using bson_le_trans by blast
        moreover have "?a \<noteq> ?c" using l ab bson_le_antisym by metis
        ultimately show ?thesis using DESCENDING by (simp add: kd)
      qed
    qed
  qed
qed

lemma mset_insort_by [simp]: "mset (insort_by le x xs) = add_mset x (mset xs)"
  by (induction xs) auto

lemma mset_sort_by [simp]: "mset (sort_by le xs) = mset xs"
  unfolding sort_by_def by (induction xs) auto

lemma set_insort_by [simp]: "set (insort_by le x xs) = insert x (set xs)"
  by (induction xs) auto

lemma sorted_insort_by:
  assumes total: "\<And>a b. le a b \<or> le b a" and trans: "\<And>a b c. le a b \<Longrightarrow> le b c \<Longrightarrow> le a c"
  shows "sorted_wrt le xs \<Longrightarrow> sorted_wrt le (insort_by le x xs)"
proof (induction xs)
  case Nil
  show ?case by simp
next
  case (Cons y ys)
  show ?case
  proof (cases "le x y")
    case True
    with Cons.prems trans show ?thesis by auto
  next
    case False
    with total have "le y x" by blast
    with Cons False show ?thesis by auto
  qed
qed

lemma sorted_sort_by:
  assumes "\<And>a b. le a b \<or> le b a" and "\<And>a b c. le a b \<Longrightarrow> le b c \<Longrightarrow> le a c"
  shows "sorted_wrt le (sort_by le xs)"
  unfolding sort_by_def
proof (induction xs)
  case Nil
  show ?case by simp
next
  case (Cons x xs)
  then show ?case using sorted_insort_by [of le, OF assms] by simp
qed

lemma sorted_find_sorted: "sorted_wrt (sort_le spec) (find_sorted q spec coll)"
  unfolding find_sorted_def using sort_le_total sort_le_trans by (rule sorted_sort_by)

lemma mset_find_sorted: "mset (find_sorted q spec coll) = mset (filter (matches q) coll)"
  by (simp add: find_sorted_def)

lemma sort_le_end_start:
  "sort_le [(''end_date'', DESCENDING), (''start_date'', DESCENDING)] = end_desc_start_desc"
  by (auto simp: fun_eq_iff end_desc_start_desc_def bson_less_def)

lemma sort_le_start_created:
  "sort_le [(''start_date'', ASCENDING), (''created_at'', DESCENDING)] = start_asc_created_desc"
  by (auto simp: fun_eq_iff start_asc_created_desc_def bson_less_def)

lemmas eval_sort = find_sorted_def sort_by_def active_query_def field_date_def start_absent_def
  active_on_def date_text_ok_def dates_well_formed_def date_le_def bson_less_def
  start_asc_created_desc_def end_desc_start_desc_def

text \<open>
  Claim C8.  For an authenticated teacher, \<open>list_announcements\<close> returns all the
  announcements of the collection, each once (active or not: the query is empty), ordered
  by \<open>end_date\<close> descending and then \<open>start_date\<close> descending in the order of the store.
  (The store call is taken not to raise.)
\<close>

theorem list_announcements_all_sorted:
  assumes "require_teacher e st u = Inr t" and "raises e AnnouncementsFind = None"
  shows "\<exists>ds. list_announcements e st u = Inr (map serialize_announcement ds) \<and>
              mset ds = mset (announcements_collection st) \<and>
              sorted_wrt end_desc_start_desc ds"
proof -
  let ?ds = "find_sorted (And []) [(''end_date'', DESCENDING), (''start_date'', DESCENDING)]
               (announcements_collection st)"
  from assms have "list_announcements e st u = Inr (map serialize_announcement ?ds)"
    by (simp add: list_announcements_def store_call_def except_Exception_def)
  moreover have "mset ?ds = mset (announcements_collection st)"
    by (simp add: mset_find_sorted)
  moreover have "sorted_wrt end_desc_start_desc ?ds"
    using sorted_find_sorted [of "[(''end_date'', DESCENDING), (''start_date'', DESCENDING)]"]
    by (simp only: sort_le_end_start)
  ultimately show ?thesis by blast
qed

theorem list_announcements_all_sorted_witness:
  "require_teacher example_env example_store (Some ''mrodriguez'') =
     Inr [(''_id'', PStr ''mrodriguez''), (''display_name'', PStr ''Ms. Rodriguez'')] \<and>
   raises example_env AnnouncementsFind = None \<and>
   list_announcements example_env example_store (Some ''mrodriguez'') =
     Inr [serialize_announcement fair_doc, serialize_announcement exam_doc] \<and>
   end_desc_start_desc fair_doc exam_doc"
proof -
  have t: "require_teacher example_env example_store (Some ''mrodriguez'') =
     Inr [(''_id'', PStr ''mrodriguez''), (''display_name'', PStr ''Ms. Rodriguez'')]"
    by (simp add: eval_store)
  have r: "raises example_env AnnouncementsFind = None" by (simp add: example_env_def)
  from list_announcements_all_sorted [OF t r] obtain ds where
    ds: "list_announcements example_env example_store (Some ''mrodriguez'') =
           Inr (map serialize_announcement ds)"
      "sorted_wrt end_desc_start_desc ds" by blast
  have l: "list_announcements example_env example_store (Some ''mrodriguez'') =
     Inr [serialize_announcement fair_doc, serialize_announcement exam_doc]"
    by (simp add: eval_store eval_sort list_announcements_def)
  have o: "end_desc_start_desc fair_doc exam_doc"
    by (simp add: eval_store eval_sort)
  from ds t r l o show ?thesis by simp
qed

subsection \<open>ISO date strings compare as their dates\<close>

lemma lex2:
  fixes a b c d :: nat
  assumes "b < 10" "d < 10"
  shows "(a < c \<or> a = c \<and> b < d) = (10 * a + b < 10 * c + d)"
  using assms by linarith

lemma eq2:
  fixes a b c d :: nat
  assumes "b < 10" "d < 10"
  shows "(a = c \<and> b = d) = (10 * a + b = 10 * c + d)"
proof
  assume "a = c \<and> b = d"
  then show "10 * a + b = 10 * c + d" by simp
next
  assume e: "10 * a + b = 10 * c + d"
  have "a = c"
  proof (rule ccontr)
    assume "a \<noteq> c"
    then have "a < c \<or> c < a" by auto
    with e assms show False by linarith
  qed
  with e show "a = c \<and> b = d" by simp
qed

lemma lex4:
  fixes a b c d :: nat
  assumes "b < 10" "c < 10" "d < 10" "b' < 10" "c' < 10" "d' < 10"
  shows "(a < a' \<or> a = a' \<and> (b < b' \<or> b = b' \<and> (c < c' \<or> c = c' \<and> d < d'))) =
         (1000 * a + 100 * b + 10 * c + d < 1000 * a' + 100 * b' + 10 * c' + d')"
proof -
  let ?x = "10 * a + b" and ?x' = "10 * a' + b'"
  let ?y = "10 * ?x + c" and ?y' = "10 * ?x' + c'"
  have 1: "(a < a' \<or> a = a' \<and> b < b') = (?x < ?x')"
    using assms(1,4) by (rule lex2)
  have e1: "(a = a' \<and> b = b') = (?x = ?x')"
    using assms(1,4) by (rule eq2)
  have 2: "(?x < ?x' \<or> ?x = ?x' \<and> c < c') = (?y < ?y')"
    using assms(2,5) by (rule lex2)
  have e2: "(?x = ?x' \<and> c = c') = (?y = ?y')"
    using assms(2,5) by (rule eq2)
  have 3: "(?y < ?y' \<or> ?y = ?y' \<and> d < d') = (10 * ?y + d < 10 * ?y' + d')"
    using assms(3,6) by (rule lex2)
  have "(a < a' \<or> a = a' \<and> (b < b' \<or> b = b' \<and> (c < c' \<or> c = c' \<and> d < d'))) =
        ((a < a' \<or> a = a' \<and> b < b') \<or> (a = a' \<and> b = b') \<and> (c < c' \<or> c = c' \<and> d < d'))"
    by blast
  also have "\<dots> = (?x < ?x' \<or> ?x = ?x' \<and> (c < c' \<or> c = c' \<and> d < d'))"
    by (simp only: 1 e1)
  also have "\<dots> = ((?x < ?x' \<or> ?x = ?x' \<and> c < c') \<or> (?x = ?x' \<and> c = c') \<and> d < d')"
    by blast
  also have "\<dots> = (?y < ?y' \<or> ?y = ?y' \<and> d < d')"
    by (simp only: 2 e2)
  also have "\<dots> = (10 * ?y + d < 10 * ?y' + d')"
    by (rule 3)
  finally have r: "(a < a' \<or> a = a' \<and> (b < b' \<or> b = b' \<and> (c < c' \<or> c = c' \<and> d < d'))) =
     (10 * ?y + d < 10 * ?y' + d')" .
  have n: "10 * ?y + d = 1000 * a + 100 * b + 10 * c + d"
    "10 * ?y' + d' = 1000 * a' + 100 * b' + 10 * c' + d'" by simp_all
  show ?thesis using r unfolding n .
qed
lemma eq4:
  fixes a b c d :: nat
  assumes "b < 10" "c < 10" "d < 10" "b' < 10" "c' < 10" "d' < 10"
  shows "(a = a' \<and> b = b' \<and> c = c' \<and> d = d') =
         (1000 * a + 100 * b + 10 * c + d = 1000 * a' + 100 * b' + 10 * c' + d')"
proof -
  let ?x = "10 * a + b" and ?x' = "10 * a' + b'"
  let ?y = "10 * ?x + c" and ?y' = "10 * ?x' + c'"
  have e1: "(a = a' \<and> b = b') = (?x = ?x')"
    using assms(1,4) by (rule eq2)
  have e2: "(?x = ?x' \<and> c = c') = (?y = ?y')"
    using assms(2,5) by (rule eq2)
  have e3: "(?y = ?y' \<and> d = d') = (10 * ?y + d = 10 * ?y' + d')"
    using assms(3,6) by (rule eq2)
  have "(a = a' \<and> b = b' \<and> c = c' \<and> d = d') = (((a = a' \<and> b = b') \<and> c = c') \<and> d = d')"
    by blast
  also have "\<dots> = (10 * ?y + d = 10 * ?y' + d')"
    by (simp only: e1 e2 e3)
  finally have r: "(a = a' \<and> b = b' \<and> c = c' \<and> d = d') = (10 * ?y + d = 10 * ?y' + d')" .
  have n: "10 * ?y + d = 1000 * a + 100 * b + 10 * c + d"
    "10 * ?y' + d' = 1000 * a' + 100 * b' + 10 * c' + d'" by simp_all
  show ?thesis using r unfolding n .
qed


lemma digit_char_less: "j < 10 \<Longrightarrow> k < 10 \<Longrightarrow> digit_char j < digit_char k \<longleftrightarrow> j < k"
  by (simp add: less_char_def of_char_digit_char)

lemma lex_append:
  "length xs = length ys \<Longrightarrow> (xs @ us < ys @ vs) = (xs < ys \<or> xs = ys \<and> us < (vs :: 'a :: linorder list))"
  by (induction xs ys rule: list_induct2) auto

lemma pad2_less:
  assumes "n < 100" "m < 100"
  shows "(pad2 n < pad2 m) = (n < m)" and "(pad2 n = pad2 m) = (n = m)"
proof -
  define a b c d where "a = n div 10" and "b = n mod 10" and "c = m div 10" and "d = m mod 10"
  have e: "n = 10 * a + b" "m = 10 * c + d" and k: "b < 10" "d < 10"
    by (simp_all add: a_def b_def c_def d_def)
  with assms have f: "a < 10" "c < 10" by simp_all
  have p: "pad2 n = [digit_char a, digit_char b]" "pad2 m = [digit_char c, digit_char d]"
    using e k by (simp_all add: pad2_digits)
  have "(pad2 n < pad2 m) = (a < c \<or> a = c \<and> b < d)"
    unfolding p using k f by (simp add: digit_char_less digit_char_inj)
  then show "(pad2 n < pad2 m) = (n < m)"
    unfolding e using lex2 [OF k] by simp
  have "(pad2 n = pad2 m) = (a = c \<and> b = d)"
    unfolding p using k f by (simp add: digit_char_inj)
  then show "(pad2 n = pad2 m) = (n = m)"
    unfolding e using eq2 [OF k] by simp
qed

lemma pad4_less:
  assumes "n \<le> 9999" "m \<le> 9999"
  shows "(pad4 n < pad4 m) = (n < m)" and "(pad4 n = pad4 m) = (n = m)"
proof -
  define a b c d where "a = n div 1000" and "b = n div 100 mod 10" and "c = n div 10 mod 10"
    and "d = n mod 10"
  define a' b' c' d' where "a' = m div 1000" and "b' = m div 100 mod 10" and "c' = m div 10 mod 10"
    and "d' = m mod 10"
  have e: "n = 1000 * a + 100 * b + 10 * c + d" "m = 1000 * a' + 100 * b' + 10 * c' + d'"
    unfolding a_def b_def c_def d_def a'_def b'_def c'_def d'_def by (rule four_digits)+
  have k: "b < 10" "c < 10" "d < 10" "b' < 10" "c' < 10" "d' < 10"
    by (simp_all add: b_def c_def d_def b'_def c'_def d'_def)
  from assms have f: "a < 10" "a' < 10" by (simp_all add: a_def a'_def)
  have p: "pad4 n = [digit_char a, digit_char b, digit_char c, digit_char d]"
    "pad4 m = [digit_char a', digit_char b', digit_char c', digit_char d']"
    unfolding e using k by (simp_all add: pad4_digits)
  have "(pad4 n < pad4 m) =
      (a < a' \<or> a = a' \<and> (b < b' \<or> b = b' \<and> (c < c' \<or> c = c' \<and> d < d')))"
    unfolding p using k f by (simp add: digit_char_less digit_char_inj)
  then show "(pad4 n < pad4 m) = (n < m)"
    unfolding e using lex4 [OF k] by simp
  have "(pad4 n = pad4 m) = (a = a' \<and> b = b' \<and> c = c' \<and> d = d')"
    unfolding p using k f by (simp add: digit_char_inj)
  then show "(pad4 n = pad4 m) = (n = m)"
    unfolding e using eq4 [OF k] by simp
qed

lemma length_pad [simp]: "length (pad4 n) = 4" "length (pad2 n) = 2"
  by (simp_all add: pad4_def pad2_def)

lemma isoformat_less:
  assumes "valid_date a" "valid_date b"
  shows "(isoformat a < isoformat b) = date_less a b"
proof -
  from assms have y: "year a \<le> 9999" "year b \<le> 9999" and m: "month a < 100" "month b < 100"
    and d: "day a < 100" "day b < 100"
    using days_in_month_le [of "year a" "month a"] days_in_month_le [of "year b" "month b"]
    by (auto simp: valid_date_def)
  let ?da = "CHR ''-'' # pad2 (day a)" and ?db = "CHR ''-'' # pad2 (day b)"
  let ?ma = "pad2 (month a) @ ?da" and ?mb = "pad2 (month b) @ ?db"
  have 1: "(?da < ?db) = (day a < day b)"
    using pad2_less(1) [OF d] by simp
  have 2: "(?ma < ?mb) = (month a < month b \<or> month a = month b \<and> day a < day b)"
  proof -
    have "(?ma < ?mb) = (pad2 (month a) < pad2 (month b) \<or>
        pad2 (month a) = pad2 (month b) \<and> ?da < ?db)"
      by (rule lex_append) simp
    then show ?thesis by (simp only: pad2_less [OF m] 1)
  qed
  have 3: "(CHR ''-'' # ?ma < CHR ''-'' # ?mb) = (?ma < ?mb)" by simp
  have "(isoformat a < isoformat b) = (pad4 (year a) < pad4 (year b) \<or>
      pad4 (year a) = pad4 (year b) \<and> CHR ''-'' # ?ma < CHR ''-'' # ?mb)"
    unfolding isoformat_def by (rule lex_append) simp
  then show ?thesis
    by (simp only: pad4_less [OF y] 3 2 date_less_def)
qed

lemma isoformat_inj:
  assumes "valid_date a" "valid_date b" "isoformat a = isoformat b"
  shows "a = b"
proof -
  have "Some a = strptime (unicode_of (isoformat a))"
    using assms(1) by (simp add: strptime_isoformat)
  also have "\<dots> = strptime (unicode_of (isoformat b))" by (simp only: assms(3))
  also have "\<dots> = Some b" using assms(2) by (simp add: strptime_isoformat)
  finally show ?thesis by simp
qed

lemma isoformat_le:
  assumes "valid_date a" "valid_date b"
  shows "(isoformat a \<le> isoformat b) = date_le a b"
proof -
  have "(isoformat a \<le> isoformat b) = (isoformat a < isoformat b \<or> isoformat a = isoformat b)"
    by (rule le_less)
  also have "\<dots> = (date_less a b \<or> a = b)"
    using isoformat_less [OF assms] isoformat_inj [OF assms] by auto
  finally show ?thesis by (simp add: date_le_def)
qed

subsection \<open>The handlers store ISO date strings\<close>

text \<open>The handlers write \<open>isoformat\<close> of a parsed date, or null for an absent start:
  a collection whose date strings are ISO dates stays so under create, update and
  delete.\<close>

lemma isoformat_is_iso_date_string:
  assumes "valid_date d"
  shows "iso_date_string (unicode_of (isoformat d))"
proof -
  from assms have "year d \<le> 9999" "month d < 100" "day d < 100"
    using days_in_month_le [of "year d" "month d"] by (auto simp: valid_date_def)
  then obtain a b c e f g h i where k: "a < 10" "b < 10" "c < 10" "e < 10" "f < 10" "g < 10"
      "h < 10" "i < 10"
    and n: "year d = 1000 * a + 100 * b + 10 * c + e" "month d = 10 * f + g" "day d = 10 * h + i"
    by (metis four_digits_cases two_digits)
  have "valid_date \<lparr>year = year d, month = month d, day = day d\<rparr>"
    using assms by (simp add: valid_date_def)
  then show ?thesis
    using k unfolding unicode_of_isoformat n
    by (simp add: unicode_of_digits4 unicode_of_digits2)
qed

lemma strptime_valid: "strptime s = Some d \<Longrightarrow> valid_date d"
  by (auto simp: strptime_def split: list.splits if_splits)

lemma parse_date_valid: "parse_date v f = Inr (Some d) \<Longrightarrow> valid_date d"
  by (auto simp: parse_date_def split: option.splits if_splits dest: strptime_valid)

lemma checked_dates_valid:
  assumes "checked_dates e st p u = Inr (s, d)"
  shows "valid_date d \<and> date_text_ok (Some (iso_or_None s))"
proof -
  from assms have "parse_date (start_date p) ''start_date'' = Inr s"
    and "parse_date (end_date p) ''end_date'' = Inr (Some d)"
    by (auto simp: checked_dates_def split: sum.splits option.splits)
  then show ?thesis
    using parse_date_valid isoformat_is_iso_date_string
    by (cases s) (auto simp: date_text_ok_def iso_or_None_def)
qed

lemma create_keeps_dates_well_formed:
  assumes "list_all dates_well_formed (announcements_collection st)"
    and "create_announcement e st p u = (r, st')"
  shows "list_all dates_well_formed (announcements_collection st')"
proof (cases "checked_dates e st p u")
  case (Inl x)
  with assms show ?thesis by (simp add: create_announcement_def)
next
  case (Inr sd)
  obtain s d where sd: "sd = (s, d)" by (cases sd)
  from checked_dates_valid [of e st p u s d] Inr sd
  have v: "iso_date_string (unicode_of (isoformat d))" "date_text_ok (Some (iso_or_None s))"
    by (simp_all add: isoformat_is_iso_date_string)
  with assms Inr sd show ?thesis
    by (auto simp: create_announcement_def insert_one_def Let_def dates_well_formed_def
        date_text_ok_def except_Exception_def split: sum.splits if_splits)
qed

lemma update_one_keeps:
  assumes "list_all P coll" "\<And>d. P d \<Longrightarrow> P (set_fields ups d)"
  shows "list_all P (snd (update_one q ups coll))"
  using assms(1) by (induction coll) (auto simp: assms(2) split: prod.splits)

lemma update_body_store:
  "update_body e st oid ups = (r, st') \<Longrightarrow>
     st' = st \<or> st' = st\<lparr>announcements_collection :=
        snd (update_one (Field ''_id'' (Eq (PObjectId oid))) ups (announcements_collection st))\<rparr>"
  by (auto simp: update_body_def Let_def split: sum.splits prod.splits option.splits if_splits)

lemma update_keeps_dates_well_formed:
  assumes "list_all dates_well_formed (announcements_collection st)"
    and "update_announcement e st i p u = (r, st')"
  shows "list_all dates_well_formed (announcements_collection st')"
proof (cases "checked_dates e st p u")
  case (Inl x)
  with assms show ?thesis by (simp add: update_announcement_def)
next
  case (Inr sd)
  obtain s d where sd: "sd = (s, d)" by (cases sd)
  from checked_dates_valid [of e st p u s d] Inr sd
  have v: "iso_date_string (unicode_of (isoformat d))" "date_text_ok (Some (iso_or_None s))"
    by (simp_all add: isoformat_is_iso_date_string)
  show ?thesis
  proof (cases "ObjectId i")
    case None
    with assms Inr sd show ?thesis by (simp add: update_announcement_def)
  next
    case (Some oid)
    define ups where "ups =
       [(''title'', PStr (strip (title p))), (''message'', PStr (strip (message p))),
        (''start_date'', iso_or_None s), (''end_date'', PStr (isoformat d)),
        (''updated_at'', PDatetime (utcnow e 0))]"
    have k: "dates_well_formed (set_fields ups x)" for x
      using v by (simp add: ups_def set_fields_def dates_well_formed_def update_conv'
          date_text_ok_def)
    from assms(2) Inr sd Some obtain x where "update_body e st oid ups = (x, st')"
      by (auto simp: update_announcement_def ups_def split: prod.splits)
    from update_body_store [OF this] assms(1) show ?thesis
      using update_one_keeps [of dates_well_formed "announcements_collection st" ups, OF assms(1) k]
      by auto
  qed
qed

lemma delete_one_keeps: "list_all P coll \<Longrightarrow> list_all P (delete_one q coll)"
  by (induction coll) auto

lemma delete_keeps_dates_well_formed:
  assumes "list_all dates_well_formed (announcements_collection st)"
    and "delete_announcement e st i u = (r, st')"
  shows "list_all dates_well_formed (announcements_collection st')"
  using assms
  by (auto simp: delete_announcement_def delete_body_def delete_one_keeps
      split: sum.splits option.splits prod.splits if_splits)

subsection \<open>The active query\<close>

lemma isoformat_nonempty [simp]: "isoformat x \<noteq> []" "\<not> isoformat x \<le> []"
  by (simp_all add: isoformat_def pad4_def)

lemma unicode_of_inj: "unicode_of s = unicode_of t \<Longrightarrow> s = t"
  unfolding unicode_of_def by (induction s arbitrary: t) auto

lemma iso_date_string_strptime:
  assumes "iso_date_string (unicode_of s)"
  obtains x where "valid_date x" "s = isoformat x" "strptime (unicode_of s) = Some x"
proof -
  from assms obtain x where x: "valid_date x" "unicode_of s = unicode_of (isoformat x)"
    using iso_date_string_isoformat by blast
  from x(2) have "s = isoformat x" by (rule unicode_of_inj)
  with x(1) show thesis using that strptime_isoformat by simp
qed

lemma not_iso_empty [simp]: "\<not> iso_date_string []"
  by simp

lemma gte_end_date:
  assumes "valid_date D" "date_text_ok (map_of d ''end_date'')"
  shows "cond_holds (Gte (isoformat D)) (map_of d ''end_date'') =
         (case field_date d ''end_date'' of Some x \<Rightarrow> date_le D x | None \<Rightarrow> False)"
proof (cases "map_of d ''end_date''")
  case None
  then show ?thesis by (simp add: field_date_def)
next
  case (Some v)
  show ?thesis
  proof (cases v)
    case (PStr s)
    show ?thesis
    proof (cases "s = []")
      case True
      with Some PStr show ?thesis by (simp add: field_date_def)
    next
      case False
      with assms(2) Some PStr have i: "iso_date_string (unicode_of s)"
        by (simp add: date_text_ok_def)
      then obtain x where x: "valid_date x" "s = isoformat x" "strptime (unicode_of s) = Some x"
        by (rule iso_date_string_strptime)
      with Some PStr i isoformat_le [OF assms(1) x(1)] show ?thesis
        by (simp add: field_date_def)
    qed
  qed (simp_all add: Some field_date_def)
qed

lemma start_date_clauses:
  assumes "valid_date D" "date_text_ok (map_of d ''start_date'')"
  shows "matches (Or [Field ''start_date'' (Exists False), Field ''start_date'' (Eq PNone),
                      Field ''start_date'' (Eq (PStr [])), Field ''start_date'' (Lte (isoformat D))]) d =
         (start_absent d \<or>
          (case field_date d ''start_date'' of Some x \<Rightarrow> date_le x D | None \<Rightarrow> False))"
proof (cases "map_of d ''start_date''")
  case None
  then show ?thesis by (simp add: start_absent_def)
next
  case (Some v)
  show ?thesis
  proof (cases v)
    case (PStr s)
    show ?thesis
    proof (cases "s = []")
      case True
      with Some PStr show ?thesis by (simp add: start_absent_def)
    next
      case False
      with assms(2) Some PStr have i: "iso_date_string (unicode_of s)"
        by (simp add: date_text_ok_def)
      then obtain x where x: "valid_date x" "s = isoformat x" "strptime (unicode_of s) = Some x"
        by (rule iso_date_string_strptime)
      with Some PStr False i isoformat_le [OF x(1) assms(1)] show ?thesis
        by (simp add: field_date_def start_absent_def)
    qed
  qed (simp_all add: Some field_date_def start_absent_def)
qed

lemma matches_active_query:
  assumes "valid_date D" "dates_well_formed d"
  shows "matches (active_query (isoformat D)) d = active_on D d"
proof -
  from assms(2) have w: "date_text_ok (map_of d ''end_date'')" "date_text_ok (map_of d ''start_date'')"
    by (simp_all add: dates_well_formed_def)
  have "matches (active_query (isoformat D)) d =
      (cond_holds (Gte (isoformat D)) (map_of d ''end_date'') \<and>
       matches (Or [Field ''start_date'' (Exists False), Field ''start_date'' (Eq PNone),
                    Field ''start_date'' (Eq (PStr [])), Field ''start_date'' (Lte (isoformat D))]) d)"
    by (simp add: active_query_def)
  then show ?thesis
    by (simp only: gte_end_date [OF assms(1) w(1)] start_date_clauses [OF assms(1) w(2)] active_on_def)
qed

lemma filter_active_query:
  assumes "valid_date D" "list_all dates_well_formed coll"
  shows "filter (matches (active_query (isoformat D))) coll = filter (active_on D) coll"
  using assms by (intro filter_cong) (auto simp: list_all_iff matches_active_query)

text \<open>
  Claim C1.  With \<open>D\<close> the date taken as today, \<open>get_active_announcements\<close> returns
  exactly the announcements whose \<open>end_date\<close> is on or after \<open>D\<close> and whose
  \<open>start_date\<close> is absent, null, empty, or on or before \<open>D\<close>, each once, ordered by
  \<open>start_date\<close> ascending and then \<open>created_at\<close> descending.  The collection is any one
  of the data model, whose date strings are ISO dates, as they are in every collection
  that the handlers have written.  The handler takes no teacher:
  its result does not depend on the teachers or on their lookup.
  (The store call is taken not to raise.)
\<close>

theorem active_announcements_listed:
  assumes "valid_date (today e)" and "raises e AnnouncementsFind = None"
    and "list_all dates_well_formed (announcements_collection st)"
  shows "(\<exists>ds. get_active_announcements e st = Inr (map serialize_announcement ds) \<and>
               mset ds = mset (filter (active_on (today e)) (announcements_collection st)) \<and>
               sorted_wrt start_asc_created_desc ds) \<and>
         get_active_announcements (e\<lparr>raises := (raises e)(TeachersFindOne := x)\<rparr>)
             (st\<lparr>teachers_collection := ts\<rparr>) = get_active_announcements e st"
proof
  let ?spec = "[(''start_date'', ASCENDING), (''created_at'', DESCENDING)]"
  let ?ds = "find_sorted (active_query (isoformat (today e))) ?spec (announcements_collection st)"
  from assms(2) have "get_active_announcements e st = Inr (map serialize_announcement ?ds)"
    by (simp add: get_active_announcements_def store_call_def except_Exception_def)
  moreover have "mset ?ds = mset (filter (active_on (today e)) (announcements_collection st))"
    by (simp only: mset_find_sorted filter_active_query [OF assms(1,3)])
  moreover have "sorted_wrt start_asc_created_desc ?ds"
    using sorted_find_sorted [of ?spec] by (simp only: sort_le_start_created)
  ultimately show "\<exists>ds. get_active_announcements e st = Inr (map serialize_announcement ds) \<and>
               mset ds = mset (filter (active_on (today e)) (announcements_collection st)) \<and>
               sorted_wrt start_asc_created_desc ds"
    by blast
  show "get_active_announcements (e\<lparr>raises := (raises e)(TeachersFindOne := x)\<rparr>)
             (st\<lparr>teachers_collection := ts\<rparr>) = get_active_announcements e st"
    by (simp add: get_active_announcements_def store_call_def)
qed

theorem active_announcements_listed_witness:
  "valid_date (today example_env) \<and> raises example_env AnnouncementsFind = None \<and>
   list_all dates_well_formed (announcements_collection example_store) \<and>
   get_active_announcements example_env example_store = Inr [serialize_announcement exam_doc] \<and>
   filter (active_on (today example_env)) (announcements_collection example_store) = [exam_doc]"
proof -
  have v: "valid_date (today example_env)" by (simp add: eval_date example_env_def)
  have r: "raises example_env AnnouncementsFind = None" by (simp add: example_env_def)
  have w: "list_all dates_well_formed (announcements_collection example_store)"
    by (simp add: eval_date eval_store eval_sort)
  have f: "filter (active_on (today example_env)) (announcements_collection example_store) = [exam_doc]"
    by (simp add: eval_date eval_store eval_sort)
  from active_announcements_listed [OF v r w] obtain ds where
    ds: "get_active_announcements example_env example_store = Inr (map serialize_announcement ds)"
      "mset ds = mset (filter (active_on (today example_env)) (announcements_collection example_store))"
    by blast
  from ds(2) have "mset ds = {#exam_doc#}" by (simp only: f mset.simps)
  then have "ds = [exam_doc]" by simp
  with ds(1) f v r w show ?thesis by simp
qed

end
